theory Spec2Isabelle
  imports Main "HOL-Library.Multiset" "HOL-Library.Sublist"
begin

section \<open>Data model (app/schemas.py)\<close>

text \<open>
  A timestamp is an instant, counted in microseconds since the epoch. A Python
  \<^verbatim>\<open>datetime\<close> carries the reading of its date and time fields, counted the same way,
  and its \<^verbatim>\<open>tzinfo\<close>: \<^verbatim>\<open>None\<close> for a naive value. A naive and an aware value are never
  equal in Python, and they are different values here. A handler receives the instant
  its clock shows as the argument \<open>now\<close>.
\<close>

type_synonym timestamp = int

datatype timezone = UTC

datatype datetime = Datetime (instant: timestamp) (tzinfo: "timezone option")

text \<open>\<^verbatim>\<open>datetime.now(tz)\<close> at the instant \<open>clock\<close>, for \<^verbatim>\<open>tz = timezone.utc\<close>.\<close>

definition datetime_now :: "timestamp \<Rightarrow> timezone \<Rightarrow> datetime" where
  "datetime_now clock tz = Datetime clock (Some tz)"

text \<open>\<^verbatim>\<open>d.replace(tzinfo=tz)\<close>: the fields are kept, the zone is replaced.\<close>

definition replace_tzinfo :: "datetime \<Rightarrow> timezone option \<Rightarrow> datetime" where
  "replace_tzinfo d tz = Datetime (instant d) tz"

datatype TaskStatus = PENDING | IN_PROGRESS | COMPLETED

fun TaskStatus_value :: "TaskStatus \<Rightarrow> string" where
  "TaskStatus_value PENDING = ''pending''"
| "TaskStatus_value IN_PROGRESS = ''in_progress''"
| "TaskStatus_value COMPLETED = ''completed''"

text \<open>\<^verbatim>\<open>TaskStatus(s)\<close>: the member whose value is \<open>s\<close>, if there is one.\<close>

definition TaskStatus_of :: "string \<Rightarrow> TaskStatus option" where
  "TaskStatus_of s =
     (if s = ''pending'' then Some PENDING
      else if s = ''in_progress'' then Some IN_PROGRESS
      else if s = ''completed'' then Some COMPLETED
      else None)"

record TaskBase =
  title :: string
  description :: "string option"
  status :: TaskStatus

type_synonym TaskCreate = TaskBase

record TaskUpdate =
  upd_title :: "string option"
  upd_description :: "string option"
  upd_status :: "TaskStatus option"

record Task = TaskBase +
  id' :: string
  created_at :: datetime
  updated_at :: datetime

text \<open>
  The Python values that flow through the handlers untyped: the values of the
  \<^verbatim>\<open>update_fields\<close> dictionary, the values bound to query parameters and the
  keyword arguments of the \<^verbatim>\<open>Task\<close> constructor.
\<close>

datatype pyval = PyNone | PyStr string | PyDatetime datetime | PyEnum TaskStatus

fun optional_str :: "string option \<Rightarrow> pyval" where
  "optional_str None = PyNone"
| "optional_str (Some s) = PyStr s"

datatype exn =
    NotFound | BadRequest | GoogleAPICallError
  | ValidationError | IndexError | KeyError | OtherException

datatype HTTPException = HTTPException (status_code: nat) (detail: string)

subsection \<open>Field validation\<close>

text \<open>
  \<^verbatim>\<open>Field(..., min_length=lo, max_length=hi)\<close> on a \<^verbatim>\<open>str\<close>. The source counts
  characters; a \<open>string\<close> here is a list of characters as well.
\<close>

definition str_field :: "nat \<Rightarrow> nat \<Rightarrow> pyval \<Rightarrow> string option" where
  "str_field lo hi v =
     (case v of PyStr s \<Rightarrow> if lo \<le> length s \<and> length s \<le> hi then Some s else None
      | _ \<Rightarrow> None)"

definition optional_str_field :: "nat \<Rightarrow> pyval \<Rightarrow> string option option" where
  "optional_str_field hi v =
     (case v of PyNone \<Rightarrow> Some None
      | PyStr s \<Rightarrow> if length s \<le> hi then Some (Some s) else None
      | _ \<Rightarrow> None)"

definition plain_str_field :: "pyval \<Rightarrow> string option" where
  "plain_str_field v = (case v of PyStr s \<Rightarrow> Some s | _ \<Rightarrow> None)"

definition status_field :: "pyval \<Rightarrow> TaskStatus option" where
  "status_field v =
     (case v of PyEnum st \<Rightarrow> Some st | PyStr s \<Rightarrow> TaskStatus_of s | _ \<Rightarrow> None)"

definition datetime_field :: "pyval \<Rightarrow> datetime option" where
  "datetime_field v = (case v of PyDatetime t \<Rightarrow> Some t | _ \<Rightarrow> None)"

text \<open>
  The constructor \<^verbatim>\<open>Task(id=.., title=.., description=.., status=.., created_at=..,
  updated_at=..)\<close>: every field is validated against its declaration, and a field that
  fails raises \<^verbatim>\<open>ValidationError\<close>.
\<close>

definition Task_init ::
  "pyval \<Rightarrow> pyval \<Rightarrow> pyval \<Rightarrow> pyval \<Rightarrow> pyval \<Rightarrow> pyval \<Rightarrow> exn + Task" where
  "Task_init i t d s c u =
     (case Option.bind (plain_str_field i) (\<lambda>i'.
           Option.bind (str_field 1 200 t) (\<lambda>t'.
           Option.bind (optional_str_field 1000 d) (\<lambda>d'.
           Option.bind (status_field s) (\<lambda>s'.
           Option.bind (datetime_field c) (\<lambda>c'.
           Option.bind (datetime_field u) (\<lambda>u'.
             Some \<lparr>title = t', description = d', status = s',
                   id' = i', created_at = c', updated_at = u'\<rparr>))))))
      of None \<Rightarrow> Inl ValidationError
       | Some task \<Rightarrow> Inr task)"

subsection \<open>Request bodies\<close>

text \<open>
  A JSON request body is a map from member names to values; of the JSON values only
  \<^verbatim>\<open>null\<close> and strings can be accepted by a field of these schemas. A member that
  is absent takes the default of its field, where it has one.
\<close>

datatype json = JNull | JStr string

definition TaskCreate_validate :: "(string \<rightharpoonup> json) \<Rightarrow> TaskCreate option" where
  "TaskCreate_validate body =
     Option.bind (case body ''title'' of
                    Some (JStr s) \<Rightarrow> str_field 1 200 (PyStr s)
                  | _ \<Rightarrow> None) (\<lambda>t.
     Option.bind (case body ''description'' of
                    None \<Rightarrow> Some None
                  | Some JNull \<Rightarrow> Some None
                  | Some (JStr s) \<Rightarrow> optional_str_field 1000 (PyStr s)) (\<lambda>d.
     Option.bind (case body ''status'' of
                    None \<Rightarrow> Some PENDING
                  | Some JNull \<Rightarrow> None
                  | Some (JStr s) \<Rightarrow> TaskStatus_of s) (\<lambda>st.
       Some \<lparr>title = t, description = d, status = st\<rparr>)))"

definition TaskUpdate_validate :: "(string \<rightharpoonup> json) \<Rightarrow> TaskUpdate option" where
  "TaskUpdate_validate body =
     Option.bind (case body ''title'' of
                    None \<Rightarrow> Some None
                  | Some JNull \<Rightarrow> Some None
                  | Some (JStr s) \<Rightarrow> map_option Some (str_field 1 200 (PyStr s))) (\<lambda>t.
     Option.bind (case body ''description'' of
                    None \<Rightarrow> Some None
                  | Some JNull \<Rightarrow> Some None
                  | Some (JStr s) \<Rightarrow> optional_str_field 1000 (PyStr s)) (\<lambda>d.
     Option.bind (case body ''status'' of
                    None \<Rightarrow> Some None
                  | Some JNull \<Rightarrow> Some None
                  | Some (JStr s) \<Rightarrow> map_option Some (TaskStatus_of s)) (\<lambda>st.
       Some \<lparr>upd_title = t, upd_description = d, upd_status = st\<rparr>)))"

section \<open>The datastore client (app/database.py)\<close>

record Row =
  row_id :: string
  row_title :: string
  row_description :: "string option"
  row_status :: string
  row_created_at :: timestamp
  row_updated_at :: timestamp

datatype ScalarQueryParameter = ScalarQueryParameter string string pyval

text \<open>
  The client object: its configuration, the rows of the table it points at, and the
  jobs submitted through \<^verbatim>\<open>client.query\<close> so far, oldest first (query text and bound
  parameters).
\<close>

record BigQueryClient =
  project_id :: string
  dataset_id :: string
  table_id :: string
  table_rows :: "Row list"
  jobs :: "(string \<times> ScalarQueryParameter list) list"

definition get_full_table_id :: "BigQueryClient \<Rightarrow> string" where
  "get_full_table_id self = project_id self @ ''.'' @ dataset_id self @ ''.'' @ table_id self"

subsection \<open>Query texts (main.py)\<close>

definition create_task_query :: "string \<Rightarrow> string" where
  "create_task_query tbl =
     ''\<newline>    INSERT INTO `'' @ tbl @ ''` \<newline>    (id, title, description, status, created_at, updated_at)\<newline>    VALUES (@id, @title, @description, @status, @created_at, @updated_at)\<newline>    ''"

definition list_tasks_query :: "string \<Rightarrow> string" where
  "list_tasks_query tbl =
     ''\<newline>    SELECT id, title, description, status, created_at, updated_at\<newline>    FROM `'' @ tbl @ ''`\<newline>    ORDER BY created_at DESC\<newline>    ''"

definition get_task_query :: "string \<Rightarrow> string" where
  "get_task_query tbl =
     ''\<newline>    SELECT id, title, description, status, created_at, updated_at\<newline>    FROM `'' @ tbl @ ''`\<newline>    WHERE id = @task_id\<newline>    ''"

text \<open>\<^verbatim>\<open>sep.join(xs)\<close>\<close>

fun join :: "string \<Rightarrow> string list \<Rightarrow> string" where
  "join sep [] = []"
| "join sep [x] = x"
| "join sep (x # y # ys) = x @ sep @ join sep (y # ys)"

definition set_clause :: "string list \<Rightarrow> string" where
  "set_clause keys = join '', '' (map (\<lambda>field. field @ '' = @'' @ field) keys)"

definition update_task_query :: "string \<Rightarrow> string list \<Rightarrow> string" where
  "update_task_query tbl keys =
     ''\<newline>    UPDATE `'' @ tbl @ ''`\<newline>    SET '' @ set_clause keys @ ''\<newline>    WHERE id = @task_id\<newline>    ''"

definition delete_task_query :: "string \<Rightarrow> string" where
  "delete_task_query tbl =
     ''\<newline>    DELETE FROM `'' @ tbl @ ''`\<newline>    WHERE id = @task_id\<newline>    ''"

subsection \<open>The store behind \<^verbatim>\<open>client.query\<close>\<close>

text \<open>
  The store is an external service. It is modelled as far as the statements of this
  program need: it reads the text of a query, and what it does is decided by that text
  and the bound parameters alone. The text is cut at the quoted name of the store's own
  table; the parts before and after it are split into words at blanks, line ends,
  commas and parentheses, and the words are read as one of

  \<^item> \<^verbatim>\<open>INSERT INTO t (column, ...) VALUES (@parameter, ...)\<close>
  \<^item> \<^verbatim>\<open>SELECT column, ... FROM t\<close>, alone or followed by \<^verbatim>\<open>ORDER BY column\<close>,
    \<^verbatim>\<open>ORDER BY column ASC\<close>, \<^verbatim>\<open>ORDER BY column DESC\<close> or \<^verbatim>\<open>WHERE column = @parameter\<close>
    (also with \<^verbatim>\<open>!=\<close>)
  \<^item> \<^verbatim>\<open>UPDATE t SET column = @parameter, ... WHERE column = @parameter\<close>
  \<^item> \<^verbatim>\<open>DELETE FROM t WHERE column = @parameter\<close>.

  A text that does not read so, an unknown column, a parameter that is missing or of
  the wrong type, and a null for a required column are rejected as a bad request. The
  store enforces no uniqueness of \<open>id\<close>. A statement without \<^verbatim>\<open>ORDER BY\<close> returns its
  rows in table order. A \<^verbatim>\<open>SELECT\<close> is covered when it lists all six columns, which a
  result row then carries. The driver sends a naive datetime bound to a
  \<^verbatim>\<open>TIMESTAMP\<close> parameter as that reading in UTC, and hands a \<^verbatim>\<open>TIMESTAMP\<close> column back
  as a datetime aware of UTC.
\<close>

definition is_space :: "char \<Rightarrow> bool" where
  "is_space c \<longleftrightarrow> c = CHR '' '' \<or> c = CHR ''\<newline>''"

definition is_punct :: "char \<Rightarrow> bool" where
  "is_punct c \<longleftrightarrow> c = CHR ''('' \<or> c = CHR '')'' \<or> c = CHR '',''"

text \<open>The words of a text; \<open>w\<close> is the word read so far.\<close>

fun tokenize :: "string \<Rightarrow> string \<Rightarrow> string list" where
  "tokenize w [] = (if w = [] then [] else [w])"
| "tokenize w (c # cs) =
     (if is_space c then (if w = [] then [] else [w]) @ tokenize [] cs
      else if is_punct c then (if w = [] then [] else [w]) @ [c] # tokenize [] cs
      else tokenize (w @ [c]) cs)"

fun strip_prefix :: "'a list \<Rightarrow> 'a list \<Rightarrow> 'a list option" where
  "strip_prefix [] ys = Some ys"
| "strip_prefix (x # xs) [] = None"
| "strip_prefix (x # xs) (y # ys) = (if x = y then strip_prefix xs ys else None)"

text \<open>
  The text before the first backquote and the text after the quoted table name, when
  the name quoted there is \<open>tbl\<close>.
\<close>

definition split_at_table :: "string \<Rightarrow> string \<Rightarrow> (string \<times> string) option" where
  "split_at_table tbl query =
     (case dropWhile (\<lambda>c. c \<noteq> CHR 0x60) query of
        [] \<Rightarrow> None
      | q # rest \<Rightarrow>
          map_option (Pair (takeWhile (\<lambda>c. c \<noteq> CHR 0x60) query))
            (strip_prefix (tbl @ [CHR 0x60]) rest))"

datatype comparison = EQ | NE

datatype condition = Condition string comparison string

datatype selection = AllRows | OrderBy string bool | Where condition

datatype statement =
    INSERT "string list" "string list"
  | SELECT "string list" selection
  | UPDATE "(string \<times> string) list" condition
  | DELETE condition

definition parameter_name :: "string \<Rightarrow> string option" where
  "parameter_name tok =
     (case tok of
        [] \<Rightarrow> None
      | c # n \<Rightarrow> if c = CHR ''@'' \<and> n \<noteq> [] then Some n else None)"

fun comma_list :: "string list \<Rightarrow> string list option" where
  "comma_list [] = None"
| "comma_list [x] = Some [x]"
| "comma_list (x # c # xs) = (if c = '','' then map_option (Cons x) (comma_list xs) else None)"

definition parse_condition :: "string list \<Rightarrow> condition option" where
  "parse_condition toks =
     (case toks of
        [w, col, cmp, p] \<Rightarrow>
          if w = ''WHERE'' then
            Option.bind (parameter_name p) (\<lambda>n.
              if cmp = ''='' then Some (Condition col EQ n)
              else if cmp = ''!='' then Some (Condition col NE n)
              else None)
          else None
      | _ \<Rightarrow> None)"

text \<open>In \<open>OrderBy col desc\<close> the order is descending when \<open>desc\<close> holds.\<close>

definition parse_selection :: "string list \<Rightarrow> selection option" where
  "parse_selection toks =
     (case toks of
        [] \<Rightarrow> Some AllRows
      | [k1, k2, col] \<Rightarrow>
          if k1 = ''ORDER'' \<and> k2 = ''BY'' then Some (OrderBy col False) else None
      | [k1, k2, col, dir] \<Rightarrow>
          if k1 = ''ORDER'' \<and> k2 = ''BY'' then
            (if dir = ''DESC'' then Some (OrderBy col True)
             else if dir = ''ASC'' then Some (OrderBy col False)
             else None)
          else map_option Where (parse_condition toks)
      | _ \<Rightarrow> None)"

fun parse_assignments :: "string list \<Rightarrow> (string \<times> string) list option" where
  "parse_assignments [col, e, p] =
     (if e = ''='' then map_option (\<lambda>n. [(col, n)]) (parameter_name p) else None)"
| "parse_assignments (col # e # p # c # rest) =
     (if e = ''='' \<and> c = '','' then
        Option.bind (parameter_name p) (\<lambda>n.
          map_option (Cons (col, n)) (parse_assignments rest))
      else None)"
| "parse_assignments _ = None"

definition parse_insert :: "string list \<Rightarrow> statement option" where
  "parse_insert toks =
     (case toks of
        [] \<Rightarrow> None
      | p # rest \<Rightarrow>
          (let cols = takeWhile (\<lambda>x. x \<noteq> '')'') rest;
               rest' = dropWhile (\<lambda>x. x \<noteq> '')'') rest;
               vals = takeWhile (\<lambda>x. x \<noteq> '')'') (drop 3 rest')
           in if p = ''('' \<and> take 3 rest' = ['')'', ''VALUES'', ''(''] \<and>
                 dropWhile (\<lambda>x. x \<noteq> '')'') (drop 3 rest') = ['')'']
              then Option.bind (comma_list cols) (\<lambda>cs.
                   Option.bind (comma_list vals) (\<lambda>vs.
                     map_option (INSERT cs) (those (map parameter_name vs))))
              else None))"

definition parse_update :: "string list \<Rightarrow> statement option" where
  "parse_update toks =
     (case toks of
        [] \<Rightarrow> None
      | k # rest \<Rightarrow>
          if k = ''SET'' then
            Option.bind (parse_assignments (takeWhile (\<lambda>x. x \<noteq> ''WHERE'') rest)) (\<lambda>as.
              map_option (UPDATE as) (parse_condition (dropWhile (\<lambda>x. x \<noteq> ''WHERE'') rest)))
          else None)"

definition parse_statement :: "string \<Rightarrow> string \<Rightarrow> statement option" where
  "parse_statement tbl query =
     (case split_at_table tbl query of
        None \<Rightarrow> None
      | Some (before, after) \<Rightarrow>
          (let h = tokenize [] before; t = tokenize [] after in
           if h = [''INSERT'', ''INTO''] then parse_insert t
           else if h = [''UPDATE''] then parse_update t
           else if h = [''DELETE'', ''FROM''] then map_option DELETE (parse_condition t)
           else if h \<noteq> [] \<and> hd h = ''SELECT'' \<and> last h = ''FROM'' then
             Option.bind (comma_list (butlast (tl h))) (\<lambda>cols.
               map_option (SELECT cols) (parse_selection t))
           else None))"

fun lookup_parameter :: "string \<Rightarrow> ScalarQueryParameter list \<Rightarrow> (string \<times> pyval) option" where
  "lookup_parameter n [] = None"
| "lookup_parameter n (ScalarQueryParameter m ty v # ps) =
     (if m = n then Some (ty, v) else lookup_parameter n ps)"

definition string_parameter :: "string \<Rightarrow> ScalarQueryParameter list \<Rightarrow> string option" where
  "string_parameter n ps =
     (case lookup_parameter n ps of
        Some (ty, PyStr s) \<Rightarrow> if ty = ''STRING'' then Some s else None
      | _ \<Rightarrow> None)"

definition nullable_string_parameter ::
  "string \<Rightarrow> ScalarQueryParameter list \<Rightarrow> string option option" where
  "nullable_string_parameter n ps =
     (case lookup_parameter n ps of
        Some (ty, PyStr s) \<Rightarrow> if ty = ''STRING'' then Some (Some s) else None
      | Some (ty, PyNone) \<Rightarrow> if ty = ''STRING'' then Some None else None
      | _ \<Rightarrow> None)"

definition timestamp_parameter :: "string \<Rightarrow> ScalarQueryParameter list \<Rightarrow> timestamp option" where
  "timestamp_parameter n ps =
     (case lookup_parameter n ps of
        Some (ty, PyDatetime d) \<Rightarrow> if ty = ''TIMESTAMP'' then Some (instant d) else None
      | _ \<Rightarrow> None)"

definition table_columns :: "string list" where
  "table_columns = [''id'', ''title'', ''description'', ''status'', ''created_at'', ''updated_at'']"

text \<open>The value of a \<^verbatim>\<open>STRING\<close> column in a row (\<open>None\<close> for a null), of a \<^verbatim>\<open>TIMESTAMP\<close> column.\<close>

definition string_column :: "string \<Rightarrow> (Row \<Rightarrow> string option) option" where
  "string_column col =
     (if col = ''id'' then Some (\<lambda>r. Some (row_id r))
      else if col = ''title'' then Some (\<lambda>r. Some (row_title r))
      else if col = ''description'' then Some row_description
      else if col = ''status'' then Some (\<lambda>r. Some (row_status r))
      else None)"

definition timestamp_column :: "string \<Rightarrow> (Row \<Rightarrow> timestamp) option" where
  "timestamp_column col =
     (if col = ''created_at'' then Some row_created_at
      else if col = ''updated_at'' then Some row_updated_at
      else None)"

text \<open>The rows a condition selects. A comparison with a null selects nothing.\<close>

definition holds :: "condition \<Rightarrow> ScalarQueryParameter list \<Rightarrow> (Row \<Rightarrow> bool) option" where
  "holds c ps =
     (case c of Condition col cmp n \<Rightarrow>
        Option.bind (string_column col) (\<lambda>f.
          map_option
            (\<lambda>v r. case cmp of EQ \<Rightarrow> f r = Some v | NE \<Rightarrow> f r \<noteq> None \<and> f r \<noteq> Some v)
            (string_parameter n ps)))"

definition assign_column ::
  "ScalarQueryParameter list \<Rightarrow> string \<times> string \<Rightarrow> (Row \<Rightarrow> Row) option" where
  "assign_column ps a =
     (case a of (col, n) \<Rightarrow>
        if col = ''id'' then
          map_option (\<lambda>s r. r\<lparr>row_id := s\<rparr>) (string_parameter n ps)
        else if col = ''title'' then
          map_option (\<lambda>s r. r\<lparr>row_title := s\<rparr>) (string_parameter n ps)
        else if col = ''description'' then
          map_option (\<lambda>d r. r\<lparr>row_description := d\<rparr>) (nullable_string_parameter n ps)
        else if col = ''status'' then
          map_option (\<lambda>s r. r\<lparr>row_status := s\<rparr>) (string_parameter n ps)
        else if col = ''created_at'' then
          map_option (\<lambda>t r. r\<lparr>row_created_at := t\<rparr>) (timestamp_parameter n ps)
        else if col = ''updated_at'' then
          map_option (\<lambda>t r. r\<lparr>row_updated_at := t\<rparr>) (timestamp_parameter n ps)
        else None)"

text \<open>
  The row an \<^verbatim>\<open>INSERT\<close> adds: every column but \<open>description\<close> is required; \<open>a\<close> pairs
  the listed columns with the parameters listed for them.
\<close>

definition inserted_row :: "(string \<times> string) list \<Rightarrow> ScalarQueryParameter list \<Rightarrow> Row option" where
  "inserted_row a ps =
     Option.bind (Option.bind (map_of a ''id'') (\<lambda>n. string_parameter n ps)) (\<lambda>i.
     Option.bind (Option.bind (map_of a ''title'') (\<lambda>n. string_parameter n ps)) (\<lambda>t.
     Option.bind (case map_of a ''description'' of
                    None \<Rightarrow> Some None
                  | Some n \<Rightarrow> nullable_string_parameter n ps) (\<lambda>d.
     Option.bind (Option.bind (map_of a ''status'') (\<lambda>n. string_parameter n ps)) (\<lambda>s.
     Option.bind (Option.bind (map_of a ''created_at'') (\<lambda>n. timestamp_parameter n ps)) (\<lambda>c.
     Option.bind (Option.bind (map_of a ''updated_at'') (\<lambda>n. timestamp_parameter n ps)) (\<lambda>u.
       Some \<lparr>row_id = i, row_title = t, row_description = d, row_status = s,
             row_created_at = c, row_updated_at = u\<rparr>))))))"

text \<open>The rows a statement returns, and the rows of the table after it.\<close>

fun run_statement ::
  "statement \<Rightarrow> ScalarQueryParameter list \<Rightarrow> Row list \<Rightarrow> (Row list \<times> Row list) option" where
  "run_statement (INSERT cols names) ps rows =
     (if distinct cols \<and> length cols = length names \<and> list_all (\<lambda>c. c \<in> set table_columns) cols
      then map_option (\<lambda>r. ([], rows @ [r])) (inserted_row (zip cols names) ps)
      else None)"
| "run_statement (SELECT cols sel) ps rows =
     (if list_all (\<lambda>c. c \<in> set table_columns) cols \<and> list_all (\<lambda>c. c \<in> set cols) table_columns
      then (case sel of
              AllRows \<Rightarrow> Some (rows, rows)
            | OrderBy col desc \<Rightarrow>
                map_option
                  (\<lambda>f. (if desc then rev (sort_key f rows) else sort_key f rows, rows))
                  (timestamp_column col)
            | Where c \<Rightarrow> map_option (\<lambda>p. (filter p rows, rows)) (holds c ps))
      else None)"
| "run_statement (UPDATE as c) ps rows =
     Option.bind (holds c ps) (\<lambda>p.
     map_option (\<lambda>fs. ([], map (\<lambda>r. if p r then fold (\<lambda>f. f) fs r else r) rows))
       (those (map (assign_column ps) as)))"
| "run_statement (DELETE c) ps rows =
     map_option (\<lambda>p. ([], filter (\<lambda>r. \<not> p r) rows)) (holds c ps)"

text \<open>
  The attribute of a result row for a \<^verbatim>\<open>TIMESTAMP\<close> column, as the driver hands it
  back: a datetime aware of UTC.
\<close>

definition timestamp_attribute :: "timestamp \<Rightarrow> datetime" where
  "timestamp_attribute t = Datetime t (Some UTC)"

text \<open>
  \<^verbatim>\<open>client.query(query, job_config).result()\<close>. The argument \<open>fault\<close> is the
  exception the call raises for a reason of its own (network, quota, permissions), if it
  raises one; then the table is left as it was.
\<close>

definition client_query ::
  "exn option \<Rightarrow> string \<Rightarrow> ScalarQueryParameter list \<Rightarrow> BigQueryClient
     \<Rightarrow> (exn + Row list) \<times> BigQueryClient" where
  "client_query fault query query_parameters self =
     (let self' = self\<lparr>jobs := jobs self @ [(query, query_parameters)]\<rparr> in
      case fault of
        Some e \<Rightarrow> (Inl e, self')
      | None \<Rightarrow>
          (case Option.bind (parse_statement (get_full_table_id self) query)
                  (\<lambda>st. run_statement st query_parameters (table_rows self)) of
             None \<Rightarrow> (Inl BadRequest, self')
           | Some (results, rows') \<Rightarrow> (Inr results, self'\<lparr>table_rows := rows'\<rparr>)))"

section \<open>Request handlers (main.py)\<close>

text \<open>
  \<^verbatim>\<open>NotFound\<close> and \<^verbatim>\<open>BadRequest\<close> are subclasses of \<^verbatim>\<open>GoogleAPICallError\<close>;
  the \<^verbatim>\<open>except\<close> clauses of a handler are tried in the order of the source.
\<close>

definition isinstance_GoogleAPICallError :: "exn \<Rightarrow> bool" where
  "isinstance_GoogleAPICallError e \<longleftrightarrow> e = NotFound \<or> e = BadRequest \<or> e = GoogleAPICallError"

definition row_to_task :: "Row \<Rightarrow> exn + Task" where
  "row_to_task row =
     Task_init (PyStr (row_id row)) (PyStr (row_title row)) (optional_str (row_description row))
       (PyStr (row_status row))
       (PyDatetime (timestamp_attribute (row_created_at row)))
       (PyDatetime (timestamp_attribute (row_updated_at row)))"

subsection \<open>POST /tasks/\<close>

definition create_task_except :: "exn \<Rightarrow> HTTPException" where
  "create_task_except e =
     (if e = BadRequest then HTTPException 400 ''Invalid request parameters''
      else if isinstance_GoogleAPICallError e then HTTPException 500 ''Database operation failed''
      else HTTPException 500 ''Failed to create task'')"

text \<open>
  \<open>uuid4\<close> is the value of \<^verbatim>\<open>str(uuid.uuid4())\<close> and \<open>now\<close> the value of the clock
  read in this call.
\<close>

definition create_task ::
  "string \<Rightarrow> timestamp \<Rightarrow> exn option \<Rightarrow> TaskCreate \<Rightarrow> BigQueryClient
     \<Rightarrow> (HTTPException + Task) \<times> BigQueryClient" where
  "create_task uuid4 now fault task bigquery_client =
     (let task_id = uuid4;
          current_time = replace_tzinfo (datetime_now now UTC) None;
          query = create_task_query (get_full_table_id bigquery_client);
          query_parameters =
            [ScalarQueryParameter ''id'' ''STRING'' (PyStr task_id),
             ScalarQueryParameter ''title'' ''STRING'' (PyStr (title task)),
             ScalarQueryParameter ''description'' ''STRING'' (optional_str (description task)),
             ScalarQueryParameter ''status'' ''STRING'' (PyStr (TaskStatus_value (status task))),
             ScalarQueryParameter ''created_at'' ''TIMESTAMP'' (PyDatetime current_time),
             ScalarQueryParameter ''updated_at'' ''TIMESTAMP'' (PyDatetime current_time)]
      in case client_query fault query query_parameters bigquery_client of
           (Inl e, client') \<Rightarrow> (Inl (create_task_except e), client')
         | (Inr _, client') \<Rightarrow>
             (case Task_init (PyStr task_id) (PyStr (title task))
                     (optional_str (description task)) (PyEnum (status task))
                     (PyDatetime current_time) (PyDatetime current_time) of
                Inl e \<Rightarrow> (Inl (create_task_except e), client')
              | Inr t \<Rightarrow> (Inr t, client')))"

subsection \<open>GET /tasks/\<close>

definition list_tasks_except :: "exn \<Rightarrow> HTTPException" where
  "list_tasks_except e =
     (if e = BadRequest then HTTPException 400 ''Invalid query parameters''
      else if isinstance_GoogleAPICallError e then HTTPException 500 ''Database operation failed''
      else HTTPException 500 ''Failed to fetch tasks'')"

text \<open>\<^verbatim>\<open>[row_to_task(row) for row in results]\<close>: the first row that fails raises.\<close>

fun rows_to_tasks :: "Row list \<Rightarrow> exn + Task list" where
  "rows_to_tasks [] = Inr []"
| "rows_to_tasks (row # results) =
     (case row_to_task row of
        Inl e \<Rightarrow> Inl e
      | Inr t \<Rightarrow> (case rows_to_tasks results of Inl e \<Rightarrow> Inl e | Inr ts \<Rightarrow> Inr (t # ts)))"

definition list_tasks ::
  "exn option \<Rightarrow> BigQueryClient \<Rightarrow> (HTTPException + Task list) \<times> BigQueryClient" where
  "list_tasks fault bigquery_client =
     (let query = list_tasks_query (get_full_table_id bigquery_client)
      in case client_query fault query [] bigquery_client of
           (Inl e, client') \<Rightarrow> (Inl (list_tasks_except e), client')
         | (Inr results, client') \<Rightarrow>
             (case rows_to_tasks results of
                Inl e \<Rightarrow> (Inl (list_tasks_except e), client')
              | Inr tasks \<Rightarrow> (Inr tasks, client')))"

subsection \<open>GET /tasks/{task_id}\<close>

text \<open>What the body of the \<^verbatim>\<open>try\<close> can raise: an HTTP error of its own, or an exception.\<close>

datatype raised = Http HTTPException | Exn exn

definition get_task_except :: "raised \<Rightarrow> HTTPException" where
  "get_task_except r =
     (case r of
        Http h \<Rightarrow> h
      | Exn e \<Rightarrow>
          if e = NotFound then HTTPException 404 ''Task not found''
          else if e = BadRequest then HTTPException 400 ''Invalid request parameters''
          else if isinstance_GoogleAPICallError e then HTTPException 500 ''Database operation failed''
          else HTTPException 500 ''Failed to fetch task'')"

text \<open>\<^verbatim>\<open>results[0]\<close>\<close>

definition getitem0 :: "'a list \<Rightarrow> exn + 'a" where
  "getitem0 results = (case results of [] \<Rightarrow> Inl IndexError | r # _ \<Rightarrow> Inr r)"

text \<open>The body of the \<^verbatim>\<open>try\<close> of \<^verbatim>\<open>get_task\<close> once the query has returned its rows.\<close>

definition get_task_body :: "Row list \<Rightarrow> raised + Task" where
  "get_task_body results =
     (if results = [] then Inl (Http (HTTPException 404 ''Task not found''))
      else case getitem0 results of
             Inl e \<Rightarrow> Inl (Exn e)
           | Inr row \<Rightarrow> (case row_to_task row of Inl e \<Rightarrow> Inl (Exn e) | Inr t \<Rightarrow> Inr t))"

definition get_task_results :: "Row list \<Rightarrow> HTTPException + Task" where
  "get_task_results results =
     (case get_task_body results of Inl r \<Rightarrow> Inl (get_task_except r) | Inr t \<Rightarrow> Inr t)"

definition get_task ::
  "exn option \<Rightarrow> string \<Rightarrow> BigQueryClient \<Rightarrow> (HTTPException + Task) \<times> BigQueryClient" where
  "get_task fault task_id bigquery_client =
     (let query = get_task_query (get_full_table_id bigquery_client);
          query_parameters = [ScalarQueryParameter ''task_id'' ''STRING'' (PyStr task_id)]
      in case client_query fault query query_parameters bigquery_client of
           (Inl e, client') \<Rightarrow> (Inl (get_task_except (Exn e)), client')
         | (Inr results, client') \<Rightarrow> (get_task_results results, client'))"

subsection \<open>PUT /tasks/{task_id}\<close>

text \<open>A dictionary keeps its keys in insertion order; \<^verbatim>\<open>d[k] = v\<close>, \<^verbatim>\<open>d.get(k, default)\<close>, \<^verbatim>\<open>d[k]\<close>.\<close>

fun dict_set :: "('k \<times> 'v) list \<Rightarrow> 'k \<Rightarrow> 'v \<Rightarrow> ('k \<times> 'v) list" where
  "dict_set [] k v = [(k, v)]"
| "dict_set ((k', v') # d) k v = (if k' = k then (k, v) # d else (k', v') # dict_set d k v)"

definition dict_get :: "('k \<times> 'v) list \<Rightarrow> 'k \<Rightarrow> 'v \<Rightarrow> 'v" where
  "dict_get d k dflt = (case map_of d k of None \<Rightarrow> dflt | Some v \<Rightarrow> v)"

definition dict_getitem :: "('k \<times> 'v) list \<Rightarrow> 'k \<Rightarrow> exn + 'v" where
  "dict_getitem d k = (case map_of d k of None \<Rightarrow> Inl KeyError | Some v \<Rightarrow> Inr v)"

definition update_task_except :: "exn \<Rightarrow> HTTPException" where
  "update_task_except e =
     (if e = NotFound then HTTPException 404 ''Task not found''
      else if e = BadRequest then HTTPException 400 ''Invalid request parameters''
      else if isinstance_GoogleAPICallError e then HTTPException 500 ''Database operation failed''
      else HTTPException 500 ''Failed to update task'')"

text \<open>Lines 147 to 155: the dictionary \<^verbatim>\<open>update_fields\<close>.\<close>

definition build_update_fields :: "TaskUpdate \<Rightarrow> timestamp \<Rightarrow> (string \<times> pyval) list" where
  "build_update_fields task_update now =
     (let update_fields = [];
          update_fields = (case upd_title task_update of
                             Some t \<Rightarrow> dict_set update_fields ''title'' (PyStr t)
                           | None \<Rightarrow> update_fields);
          update_fields = (case upd_description task_update of
                             Some d \<Rightarrow> dict_set update_fields ''description'' (PyStr d)
                           | None \<Rightarrow> update_fields);
          update_fields = (case upd_status task_update of
                             Some s \<Rightarrow> dict_set update_fields ''status'' (PyStr (TaskStatus_value s))
                           | None \<Rightarrow> update_fields)
      in dict_set update_fields ''updated_at''
           (PyDatetime (replace_tzinfo (datetime_now now UTC) None)))"

text \<open>Lines 168 to 179: the parameters of the \<^verbatim>\<open>UPDATE\<close> job.\<close>

definition update_task_parameters ::
  "string \<Rightarrow> (string \<times> pyval) list \<Rightarrow> ScalarQueryParameter list" where
  "update_task_parameters task_id update_fields =
     [ScalarQueryParameter ''task_id'' ''STRING'' (PyStr task_id)] @
     map (\<lambda>(field, v).
            ScalarQueryParameter field
              (if field \<noteq> ''updated_at'' then ''STRING'' else ''TIMESTAMP'') v)
         update_fields"

definition update_task ::
  "exn option \<Rightarrow> timestamp \<Rightarrow> exn option \<Rightarrow> string \<Rightarrow> TaskUpdate \<Rightarrow> BigQueryClient
     \<Rightarrow> (HTTPException + Task) \<times> BigQueryClient" where
  "update_task fault_get now fault task_id task_update bigquery_client =
     (case get_task fault_get task_id bigquery_client of
        (Inl h, client1) \<Rightarrow> (Inl h, client1)
      | (Inr existing_task, client1) \<Rightarrow>
          (let update_fields = build_update_fields task_update now in
           if update_fields = [] then (Inr existing_task, client1)
           else
             (let query = update_task_query (get_full_table_id client1) (map fst update_fields);
                  query_parameters = update_task_parameters task_id update_fields
              in case client_query fault query query_parameters client1 of
                   (Inl e, client2) \<Rightarrow> (Inl (update_task_except e), client2)
                 | (Inr _, client2) \<Rightarrow>
                     (let updated_status =
                            (case upd_status task_update of
                               Some s \<Rightarrow> s
                             | None \<Rightarrow> status existing_task)
                      in case dict_getitem update_fields ''updated_at'' of
                           Inl e \<Rightarrow> (Inl (update_task_except e), client2)
                         | Inr u \<Rightarrow>
                             (case Task_init (PyStr task_id)
                                     (dict_get update_fields ''title'' (PyStr (title existing_task)))
                                     (dict_get update_fields ''description''
                                        (optional_str (description existing_task)))
                                     (PyEnum updated_status)
                                     (PyDatetime (created_at existing_task)) u of
                                Inl e \<Rightarrow> (Inl (update_task_except e), client2)
                              | Inr t \<Rightarrow> (Inr t, client2))))))"

subsection \<open>DELETE /tasks/{task_id}\<close>

definition delete_task_except :: "exn \<Rightarrow> HTTPException" where
  "delete_task_except e =
     (if e = NotFound then HTTPException 404 ''Task not found''
      else if e = BadRequest then HTTPException 400 ''Invalid request parameters''
      else if isinstance_GoogleAPICallError e then HTTPException 500 ''Database operation failed''
      else HTTPException 500 ''Failed to delete task'')"

definition delete_task ::
  "exn option \<Rightarrow> exn option \<Rightarrow> string \<Rightarrow> BigQueryClient
     \<Rightarrow> (HTTPException + (string \<times> string) list) \<times> BigQueryClient" where
  "delete_task fault_get fault task_id bigquery_client =
     (case get_task fault_get task_id bigquery_client of
        (Inl h, client1) \<Rightarrow> (Inl h, client1)
      | (Inr _, client1) \<Rightarrow>
          (let query = delete_task_query (get_full_table_id client1);
               query_parameters = [ScalarQueryParameter ''task_id'' ''STRING'' (PyStr task_id)]
           in case client_query fault query query_parameters client1 of
                (Inl e, client2) \<Rightarrow> (Inl (delete_task_except e), client2)
              | (Inr _, client2) \<Rightarrow> (Inr [(''message'', ''Task deleted successfully'')], client2)))"

section \<open>Notions used to state the properties\<close>

text \<open>
  A row conforms to the \<^verbatim>\<open>Task\<close> schema when its title has 1 to 200 characters, its
  description, if it has one, at most 1000, and its status is the value of a member of
  \<^verbatim>\<open>TaskStatus\<close>. Every row written by \<open>create_task\<close> and \<open>update_task\<close> on a
  validated request conforms.
\<close>

definition conforms :: "Row \<Rightarrow> bool" where
  "conforms r \<longleftrightarrow>
     1 \<le> length (row_title r) \<and> length (row_title r) \<le> 200 \<and>
     (case row_description r of None \<Rightarrow> True | Some d \<Rightarrow> length d \<le> 1000) \<and>
     TaskStatus_of (row_status r) \<noteq> None"

text \<open>
  The states of the client that the handlers reach from the empty table that the client
  provisions, on requests that pass validation. Their rows conform to the schema
  (\<open>reachable_conforms\<close> below).
\<close>

inductive reachable :: "BigQueryClient \<Rightarrow> bool" where
  provisioned:
    "reachable \<lparr>project_id = p, dataset_id = d, table_id = t, table_rows = [], jobs = []\<rparr>"
| created:
    "reachable bq \<Longrightarrow> TaskCreate_validate body = Some task \<Longrightarrow>
     reachable (snd (create_task new_id now fault task bq))"
| listed:
    "reachable bq \<Longrightarrow> reachable (snd (list_tasks fault bq))"
| fetched:
    "reachable bq \<Longrightarrow> reachable (snd (get_task fault task_id bq))"
| updated:
    "reachable bq \<Longrightarrow> TaskUpdate_validate body = Some req \<Longrightarrow>
     reachable (snd (update_task fault_get now fault task_id req bq))"
| deleted:
    "reachable bq \<Longrightarrow> reachable (snd (delete_task fault_get fault task_id bq))"

text \<open>
  The merge of a prior task and an update request at the time \<open>now\<close>: a supplied field
  takes the supplied value, an absent field keeps the prior one, \<open>created_at\<close> is the
  prior one and \<open>updated_at\<close> is the naive datetime that reads \<open>now\<close>.
\<close>

definition merged :: "Task \<Rightarrow> TaskUpdate \<Rightarrow> timestamp \<Rightarrow> Task" where
  "merged prior req now =
     \<lparr>title = (case upd_title req of Some t \<Rightarrow> t | None \<Rightarrow> title prior),
      description = (case upd_description req of Some d \<Rightarrow> Some d | None \<Rightarrow> description prior),
      status = (case upd_status req of Some s \<Rightarrow> s | None \<Rightarrow> status prior),
      id' = id' prior,
      created_at = created_at prior,
      updated_at = Datetime now None\<rparr>"

text \<open>The same merge on a stored row: only the supplied columns and \<open>updated_at\<close> change.\<close>

definition updated_row :: "TaskUpdate \<Rightarrow> timestamp \<Rightarrow> Row \<Rightarrow> Row" where
  "updated_row req now r =
     r\<lparr>row_title := (case upd_title req of Some t \<Rightarrow> t | None \<Rightarrow> row_title r),
       row_description :=
         (case upd_description req of Some d \<Rightarrow> Some d | None \<Rightarrow> row_description r),
       row_status :=
         (case upd_status req of Some s \<Rightarrow> TaskStatus_value s | None \<Rightarrow> row_status r),
       row_updated_at := now\<rparr>"

text \<open>The names of the fields an update request supplies, in the order the handler tests them.\<close>

definition supplied_fields :: "TaskUpdate \<Rightarrow> string list" where
  "supplied_fields req =
     (if upd_title req \<noteq> None then [''title''] else []) @
     (if upd_description req \<noteq> None then [''description''] else []) @
     (if upd_status req \<noteq> None then [''status''] else [])"

text \<open>The texts of the queries submitted between the client states \<open>before\<close> and \<open>after\<close>.\<close>

definition issued :: "BigQueryClient \<Rightarrow> BigQueryClient \<Rightarrow> string list" where
  "issued before after = map fst (drop (length (jobs before)) (jobs after))"

definition parameter_value :: "ScalarQueryParameter \<Rightarrow> pyval" where
  "parameter_value p = (case p of ScalarQueryParameter n ty v \<Rightarrow> v)"

text \<open>A client with two stored tasks, used to instantiate the theorems below.\<close>

definition example_client :: BigQueryClient where
  "example_client =
     \<lparr>project_id = ''p'', dataset_id = ''d'', table_id = ''t'',
      table_rows =
        [\<lparr>row_id = ''u1'', row_title = ''a'', row_description = Some ''x'',
          row_status = ''pending'', row_created_at = 5, row_updated_at = 5\<rparr>,
         \<lparr>row_id = ''u2'', row_title = ''b'', row_description = None,
          row_status = ''in_progress'', row_created_at = 7, row_updated_at = 8\<rparr>],
      jobs = []\<rparr>"

text \<open>A client whose table holds two rows with the same id.\<close>

definition example_duplicates :: BigQueryClient where
  "example_duplicates =
     \<lparr>project_id = ''p'', dataset_id = ''d'', table_id = ''t'',
      table_rows =
        [\<lparr>row_id = ''u0'', row_title = ''other'', row_description = None,
          row_status = ''pending'', row_created_at = 1, row_updated_at = 1\<rparr>,
         \<lparr>row_id = ''u1'', row_title = ''first'', row_description = None,
          row_status = ''pending'', row_created_at = 5, row_updated_at = 5\<rparr>,
         \<lparr>row_id = ''u1'', row_title = ''second'', row_description = Some ''x'',
          row_status = ''completed'', row_created_at = 7, row_updated_at = 8\<rparr>],
      jobs = []\<rparr>"

section \<open>Recognising and running the statements\<close>

lemma strip_prefix_append: "strip_prefix xs (xs @ ys) = Some ys"
  by (induction xs) simp_all

lemma split_at_table_eq:
  assumes "CHR 0x60 \<notin> set before"
  shows "split_at_table tbl (before @ CHR 0x60 # tbl @ CHR 0x60 # after) = Some (before, after)"
proof -
  have p: "\<And>x. x \<in> set before \<Longrightarrow> x \<noteq> CHR 0x60" using assms by auto
  have d: "dropWhile (\<lambda>c. c \<noteq> CHR 0x60) (before @ CHR 0x60 # tbl @ CHR 0x60 # after) =
           CHR 0x60 # tbl @ CHR 0x60 # after"
    using p by (simp add: dropWhile_append2)
  have t: "takeWhile (\<lambda>c. c \<noteq> CHR 0x60) (before @ CHR 0x60 # tbl @ CHR 0x60 # after) = before"
    using p by (simp add: takeWhile_append2)
  have s: "strip_prefix (tbl @ [CHR 0x60]) (tbl @ CHR 0x60 # after) = Some after"
    using strip_prefix_append [of "tbl @ [CHR 0x60]" after] by simp
  show ?thesis
    unfolding split_at_table_def d t by (simp add: s)
qed

lemmas token_simps = is_space_def is_punct_def parameter_name_def parse_condition_def
  parse_selection_def parse_insert_def parse_update_def

lemma parse_get_task_query:
  "parse_statement tbl (get_task_query tbl) =
     Some (SELECT [''id'', ''title'', ''description'', ''status'', ''created_at'', ''updated_at'']
             (Where (Condition ''id'' EQ ''task_id'')))"
proof -
  have q: "get_task_query tbl =
      ''\<newline>    SELECT id, title, description, status, created_at, updated_at\<newline>    FROM '' @
      CHR 0x60 # tbl @ CHR 0x60 # ''\<newline>    WHERE id = @task_id\<newline>    ''"
    by (simp add: get_task_query_def)
  show ?thesis
    unfolding parse_statement_def q
    by (subst split_at_table_eq) (simp_all add: token_simps)
qed

lemma parse_list_tasks_query:
  "parse_statement tbl (list_tasks_query tbl) =
     Some (SELECT [''id'', ''title'', ''description'', ''status'', ''created_at'', ''updated_at'']
             (OrderBy ''created_at'' True))"
proof -
  have q: "list_tasks_query tbl =
      ''\<newline>    SELECT id, title, description, status, created_at, updated_at\<newline>    FROM '' @
      CHR 0x60 # tbl @ CHR 0x60 # ''\<newline>    ORDER BY created_at DESC\<newline>    ''"
    by (simp add: list_tasks_query_def)
  show ?thesis
    unfolding parse_statement_def q
    by (subst split_at_table_eq) (simp_all add: token_simps)
qed

lemma parse_delete_task_query:
  "parse_statement tbl (delete_task_query tbl) = Some (DELETE (Condition ''id'' EQ ''task_id''))"
proof -
  have q: "delete_task_query tbl =
      ''\<newline>    DELETE FROM '' @ CHR 0x60 # tbl @ CHR 0x60 # ''\<newline>    WHERE id = @task_id\<newline>    ''"
    by (simp add: delete_task_query_def)
  show ?thesis
    unfolding parse_statement_def q
    by (subst split_at_table_eq) (simp_all add: token_simps)
qed

lemma parse_create_task_query:
  "parse_statement tbl (create_task_query tbl) =
     Some (INSERT [''id'', ''title'', ''description'', ''status'', ''created_at'', ''updated_at'']
                  [''id'', ''title'', ''description'', ''status'', ''created_at'', ''updated_at''])"
proof -
  have q: "create_task_query tbl =
      ''\<newline>    INSERT INTO '' @ CHR 0x60 # tbl @ CHR 0x60 #
      '' \<newline>    (id, title, description, status, created_at, updated_at)\<newline>    VALUES (@id, @title, @description, @status, @created_at, @updated_at)\<newline>    ''"
    by (simp add: create_task_query_def)
  show ?thesis
    unfolding parse_statement_def q
    by (subst split_at_table_eq) (simp_all add: token_simps)
qed

lemma parse_update_task_query:
  assumes "ks \<in> set (map (\<lambda>s. s @ [''updated_at'']) (subseqs [''title'', ''description'', ''status'']))"
  shows "parse_statement tbl (update_task_query tbl ks) =
           Some (UPDATE (map (\<lambda>k. (k, k)) ks) (Condition ''id'' EQ ''task_id''))"
proof -
  have q: "update_task_query tbl ks =
      ''\<newline>    UPDATE '' @ CHR 0x60 # tbl @ CHR 0x60 #
      (''\<newline>    SET '' @ set_clause ks @ ''\<newline>    WHERE id = @task_id\<newline>    '')"
    by (simp add: update_task_query_def)
  have "parse_statement tbl (update_task_query tbl ks) =
          parse_update (tokenize [] (''\<newline>    SET '' @ set_clause ks @ ''\<newline>    WHERE id = @task_id\<newline>    ''))"
    unfolding parse_statement_def q
    by (subst split_at_table_eq) (simp_all add: is_space_def is_punct_def)
  also have "\<dots> = Some (UPDATE (map (\<lambda>k. (k, k)) ks) (Condition ''id'' EQ ''task_id''))"
    using assms
    by (auto simp: Let_def set_clause_def token_simps)
  finally show ?thesis .
qed

lemma get_full_table_id_simps [simp]:
  "get_full_table_id (bq\<lparr>jobs := j\<rparr>) = get_full_table_id bq"
  "get_full_table_id (bq\<lparr>table_rows := rs\<rparr>) = get_full_table_id bq"
  by (simp_all add: get_full_table_id_def)

lemma holds_id:
  "holds (Condition ''id'' EQ ''task_id'')
     (ScalarQueryParameter ''task_id'' ''STRING'' (PyStr i) # ps) = Some (\<lambda>r. row_id r = i)"
  by (simp add: holds_def string_column_def string_parameter_def)

lemma client_query_fault:
  "client_query (Some e) q ps bq = (Inl e, bq\<lparr>jobs := jobs bq @ [(q, ps)]\<rparr>)"
  by (simp add: client_query_def)

lemma client_query_select:
  "client_query None (get_task_query (get_full_table_id bq))
     [ScalarQueryParameter ''task_id'' ''STRING'' (PyStr i)] bq =
   (Inr (filter (\<lambda>r. row_id r = i) (table_rows bq)),
    bq\<lparr>jobs := jobs bq @ [(get_task_query (get_full_table_id bq),
                            [ScalarQueryParameter ''task_id'' ''STRING'' (PyStr i)])]\<rparr>)"
  by (simp add: client_query_def parse_get_task_query holds_id table_columns_def)

lemma client_query_delete:
  "client_query None (delete_task_query (get_full_table_id bq))
     [ScalarQueryParameter ''task_id'' ''STRING'' (PyStr i)] bq =
   (Inr [],
    bq\<lparr>jobs := jobs bq @ [(delete_task_query (get_full_table_id bq),
                            [ScalarQueryParameter ''task_id'' ''STRING'' (PyStr i)])],
       table_rows := filter (\<lambda>r. row_id r \<noteq> i) (table_rows bq)\<rparr>)"
  by (simp add: client_query_def parse_delete_task_query holds_id)

lemma client_query_list:
  "client_query None (list_tasks_query (get_full_table_id bq)) [] bq =
   (Inr (rev (sort_key row_created_at (table_rows bq))),
    bq\<lparr>jobs := jobs bq @ [(list_tasks_query (get_full_table_id bq), [])]\<rparr>)"
  by (simp add: client_query_def parse_list_tasks_query table_columns_def timestamp_column_def)

lemma client_query_insert:
  "client_query None (create_task_query (get_full_table_id bq))
     [ScalarQueryParameter ''id'' ''STRING'' (PyStr i),
      ScalarQueryParameter ''title'' ''STRING'' (PyStr t),
      ScalarQueryParameter ''description'' ''STRING'' (optional_str d),
      ScalarQueryParameter ''status'' ''STRING'' (PyStr s),
      ScalarQueryParameter ''created_at'' ''TIMESTAMP'' (PyDatetime c),
      ScalarQueryParameter ''updated_at'' ''TIMESTAMP'' (PyDatetime u)] bq =
   (Inr [],
    bq\<lparr>jobs := jobs bq @ [(create_task_query (get_full_table_id bq),
     [ScalarQueryParameter ''id'' ''STRING'' (PyStr i),
      ScalarQueryParameter ''title'' ''STRING'' (PyStr t),
      ScalarQueryParameter ''description'' ''STRING'' (optional_str d),
      ScalarQueryParameter ''status'' ''STRING'' (PyStr s),
      ScalarQueryParameter ''created_at'' ''TIMESTAMP'' (PyDatetime c),
      ScalarQueryParameter ''updated_at'' ''TIMESTAMP'' (PyDatetime u)])],
       table_rows := table_rows bq @
         [\<lparr>row_id = i, row_title = t, row_description = d, row_status = s,
           row_created_at = instant c, row_updated_at = instant u\<rparr>]\<rparr>)"
  by (cases d) (simp_all add: client_query_def parse_create_task_query string_parameter_def
      nullable_string_parameter_def timestamp_parameter_def table_columns_def inserted_row_def)

lemma keys_settable:
  "map fst (build_update_fields req now)
     \<in> set (map (\<lambda>s. s @ [''updated_at'']) (subseqs [''title'', ''description'', ''status'']))"
  by (simp add: build_update_fields_def Let_def split: option.splits)

lemma run_update:
  "run_statement
     (UPDATE (map (\<lambda>k. (k, k)) (map fst (build_update_fields req now)))
        (Condition ''id'' EQ ''task_id''))
     (update_task_parameters i (build_update_fields req now)) rows =
   Some ([], map (\<lambda>r. if row_id r = i then updated_row req now r else r) rows)"
  by (cases "upd_title req"; cases "upd_description req"; cases "upd_status req")
     (simp_all add: build_update_fields_def update_task_parameters_def string_parameter_def
        nullable_string_parameter_def timestamp_parameter_def assign_column_def updated_row_def
        holds_def string_column_def replace_tzinfo_def datetime_now_def)

lemma client_query_update:
  "client_query None
     (update_task_query (get_full_table_id bq) (map fst (build_update_fields req now)))
     (update_task_parameters i (build_update_fields req now)) bq =
   (Inr [],
    bq\<lparr>jobs := jobs bq @
          [(update_task_query (get_full_table_id bq) (map fst (build_update_fields req now)),
            update_task_parameters i (build_update_fields req now))],
       table_rows := map (\<lambda>r. if row_id r = i then updated_row req now r else r) (table_rows bq)\<rparr>)"
  by (simp add: client_query_def parse_update_task_query [OF keys_settable] run_update
      del: run_statement.simps map_map)

section \<open>What the handlers compute\<close>

lemma current_time_eq [simp]: "replace_tzinfo (datetime_now now UTC) None = Datetime now None"
  by (simp add: replace_tzinfo_def datetime_now_def)

lemma TaskStatus_of_value [simp]: "TaskStatus_of (TaskStatus_value s) = Some s"
  by (cases s) (simp_all add: TaskStatus_of_def)

lemma Task_init_eq:
  "Task_init (PyStr i) (PyStr t) (optional_str d) (PyEnum s) (PyDatetime c) (PyDatetime u) =
     (if 1 \<le> length t \<and> length t \<le> 200 \<and> (case d of None \<Rightarrow> True | Some x \<Rightarrow> length x \<le> 1000)
      then Inr \<lparr>title = t, description = d, status = s, id' = i, created_at = c, updated_at = u\<rparr>
      else Inl ValidationError)"
  by (cases d)
     (simp_all add: Task_init_def plain_str_field_def str_field_def optional_str_field_def
        status_field_def datetime_field_def)

lemma row_to_task_eq:
  "row_to_task r =
     (case TaskStatus_of (row_status r) of
        None \<Rightarrow> Inl ValidationError
      | Some st \<Rightarrow>
          if 1 \<le> length (row_title r) \<and> length (row_title r) \<le> 200 \<and>
             (case row_description r of None \<Rightarrow> True | Some x \<Rightarrow> length x \<le> 1000)
          then Inr \<lparr>title = row_title r, description = row_description r, status = st,
                    id' = row_id r,
                    created_at = Datetime (row_created_at r) (Some UTC),
                    updated_at = Datetime (row_updated_at r) (Some UTC)\<rparr>
          else Inl ValidationError)"
  by (cases "row_description r")
     (simp_all add: row_to_task_def Task_init_def plain_str_field_def str_field_def
        optional_str_field_def status_field_def datetime_field_def timestamp_attribute_def
      split: option.splits)

lemma row_to_task_conforms: "conforms r \<Longrightarrow> \<exists>t. row_to_task r = Inr t"
  by (auto simp: row_to_task_eq conforms_def split: option.splits)

lemma row_to_task_InrD:
  assumes "row_to_task r = Inr t"
  shows "conforms r" and "id' t = row_id r" and "title t = row_title r"
    and "description t = row_description r" and "TaskStatus_of (row_status r) = Some (status t)"
    and "created_at t = Datetime (row_created_at r) (Some UTC)"
    and "updated_at t = Datetime (row_updated_at r) (Some UTC)"
  using assms by (auto simp: row_to_task_eq conforms_def split: option.splits if_splits)

lemma row_to_task_InlD: "row_to_task r = Inl e \<Longrightarrow> e = ValidationError"
  by (auto simp: row_to_task_eq split: option.splits if_splits)

lemma get_task_results_Nil: "get_task_results [] = Inl (HTTPException 404 ''Task not found'')"
  by (simp add: get_task_results_def get_task_body_def get_task_except_def)

lemma get_task_results_Cons:
  "get_task_results (r # rest) =
     (case row_to_task r of
        Inl e \<Rightarrow> Inl (HTTPException 500 ''Failed to fetch task'')
      | Inr t \<Rightarrow> Inr t)"
  by (auto simp: get_task_results_def get_task_body_def get_task_except_def getitem0_def
        isinstance_GoogleAPICallError_def split: sum.splits dest: row_to_task_InlD)

lemma get_task_None:
  "get_task None i bq =
     (get_task_results (filter (\<lambda>r. row_id r = i) (table_rows bq)),
      bq\<lparr>jobs := jobs bq @ [(get_task_query (get_full_table_id bq),
                              [ScalarQueryParameter ''task_id'' ''STRING'' (PyStr i)])]\<rparr>)"
  by (simp add: get_task_def client_query_select)

lemma get_task_Some:
  "get_task (Some e) i bq =
     (Inl (get_task_except (Exn e)),
      bq\<lparr>jobs := jobs bq @ [(get_task_query (get_full_table_id bq),
                              [ScalarQueryParameter ''task_id'' ''STRING'' (PyStr i)])]\<rparr>)"
  by (simp add: get_task_def client_query_fault)

lemma get_task_client:
  "snd (get_task fg i bq) =
     bq\<lparr>jobs := jobs bq @ [(get_task_query (get_full_table_id bq),
                             [ScalarQueryParameter ''task_id'' ''STRING'' (PyStr i)])]\<rparr>"
  by (cases fg) (simp_all add: get_task_None get_task_Some)

lemma get_task_InrD:
  assumes "get_task fg i bq = (Inr prior, bq1)"
  shows "fg = None"
    and "\<exists>r rest. filter (\<lambda>r. row_id r = i) (table_rows bq) = r # rest \<and> row_to_task r = Inr prior"
    and "bq1 = bq\<lparr>jobs := jobs bq @ [(get_task_query (get_full_table_id bq),
                             [ScalarQueryParameter ''task_id'' ''STRING'' (PyStr i)])]\<rparr>"
proof -
  show fg: "fg = None" using assms by (cases fg) (simp_all add: get_task_Some)
  show "bq1 = bq\<lparr>jobs := jobs bq @ [(get_task_query (get_full_table_id bq),
                             [ScalarQueryParameter ''task_id'' ''STRING'' (PyStr i)])]\<rparr>"
    using assms get_task_client [of fg i bq] by simp
  from assms fg have "get_task_results (filter (\<lambda>r. row_id r = i) (table_rows bq)) = Inr prior"
    by (simp add: get_task_None)
  then show "\<exists>r rest. filter (\<lambda>r. row_id r = i) (table_rows bq) = r # rest \<and> row_to_task r = Inr prior"
    by (cases "filter (\<lambda>r. row_id r = i) (table_rows bq)")
       (auto simp: get_task_results_Nil get_task_results_Cons split: sum.splits)
qed

lemma get_task_Inr_fields:
  assumes "get_task fg i bq = (Inr prior, bq1)"
  shows "id' prior = i" and "1 \<le> length (title prior)" and "length (title prior) \<le> 200"
    and "case description prior of None \<Rightarrow> True | Some d \<Rightarrow> length d \<le> 1000"
proof -
  from get_task_InrD(2) [OF assms] obtain r rest where
    f: "filter (\<lambda>r. row_id r = i) (table_rows bq) = r # rest" and t: "row_to_task r = Inr prior"
    by blast
  from f have "r \<in> set (filter (\<lambda>r. row_id r = i) (table_rows bq))" by simp
  then have "row_id r = i" by simp
  with row_to_task_InrD [OF t] show "id' prior = i" and "1 \<le> length (title prior)"
    and "length (title prior) \<le> 200"
    and "case description prior of None \<Rightarrow> True | Some d \<Rightarrow> length d \<le> 1000"
    by (simp_all add: conforms_def)
qed

lemma build_update_fields_nonempty: "build_update_fields req now \<noteq> []"
  by (simp add: build_update_fields_def split: option.splits)

lemma keys_build_update_fields:
  "map fst (build_update_fields req now) = supplied_fields req @ [''updated_at'']"
  by (simp add: build_update_fields_def supplied_fields_def split: option.splits)

lemma dict_getitem_updated_at:
  "dict_getitem (build_update_fields req now) ''updated_at'' = Inr (PyDatetime (Datetime now None))"
  by (simp add: build_update_fields_def dict_getitem_def split: option.splits)

lemma dict_get_title:
  "dict_get (build_update_fields req now) ''title'' (PyStr t0) =
     PyStr (case upd_title req of Some t \<Rightarrow> t | None \<Rightarrow> t0)"
  by (simp add: build_update_fields_def dict_get_def split: option.splits)

lemma dict_get_description:
  "dict_get (build_update_fields req now) ''description'' (optional_str d0) =
     optional_str (case upd_description req of Some d \<Rightarrow> Some d | None \<Rightarrow> d0)"
  by (simp add: build_update_fields_def dict_get_def split: option.splits)

lemma update_task_get_error:
  "get_task fg i bq = (Inl h, bq1) \<Longrightarrow> update_task fg now f i req bq = (Inl h, bq1)"
  by (simp add: update_task_def)

lemma update_task_fault:
  assumes "get_task fg i bq = (Inr prior, bq1)"
  shows "update_task fg now (Some e) i req bq =
     (Inl (update_task_except e),
      bq1\<lparr>jobs := jobs bq1 @
        [(update_task_query (get_full_table_id bq1) (map fst (build_update_fields req now)),
          update_task_parameters i (build_update_fields req now))]\<rparr>)"
  using assms
  by (simp add: update_task_def Let_def build_update_fields_nonempty client_query_fault)

lemma update_task_run:
  assumes "get_task fg i bq = (Inr prior, bq1)"
  shows "update_task fg now None i req bq =
     ((if (case upd_title req of Some t \<Rightarrow> 1 \<le> length t \<and> length t \<le> 200 | None \<Rightarrow> True) \<and>
          (case upd_description req of Some d \<Rightarrow> length d \<le> 1000 | None \<Rightarrow> True)
       then Inr (merged prior req now)
       else Inl (HTTPException 500 ''Failed to update task'')),
      bq1\<lparr>jobs := jobs bq1 @
        [(update_task_query (get_full_table_id bq1) (map fst (build_update_fields req now)),
          update_task_parameters i (build_update_fields req now))],
         table_rows := map (\<lambda>r. if row_id r = i then updated_row req now r else r)
                           (table_rows bq1)\<rparr>)"
  using assms get_task_Inr_fields [OF assms]
  by (auto simp: update_task_def Let_def build_update_fields_nonempty client_query_update
        dict_getitem_updated_at dict_get_title dict_get_description Task_init_eq merged_def
        update_task_except_def isinstance_GoogleAPICallError_def
      split: option.splits)

lemma TaskUpdate_validate_SomeD:
  assumes "TaskUpdate_validate body = Some req"
  shows "case upd_title req of Some t \<Rightarrow> 1 \<le> length t \<and> length t \<le> 200 | None \<Rightarrow> True"
    and "case upd_description req of Some d \<Rightarrow> length d \<le> 1000 | None \<Rightarrow> True"
  using assms
  by (auto simp: TaskUpdate_validate_def str_field_def optional_str_field_def
      split: option.splits json.splits if_splits Option.bind_splits)

lemma get_task_fst_InrD:
  "fst (get_task fg i bq) = Inr prior \<Longrightarrow> get_task fg i bq = (Inr prior, snd (get_task fg i bq))"
  by (metis prod.collapse)

lemma TaskCreate_validate_SomeD:
  assumes "TaskCreate_validate body = Some task"
  shows "1 \<le> length (title task)" and "length (title task) \<le> 200"
    and "case description task of None \<Rightarrow> True | Some d \<Rightarrow> length d \<le> 1000"
    and "body ''title'' = Some (JStr (title task))"
    and "description task = (case body ''description'' of Some (JStr s) \<Rightarrow> Some s | _ \<Rightarrow> None)"
    and "status task = (case body ''status'' of Some (JStr s) \<Rightarrow> the (TaskStatus_of s) | _ \<Rightarrow> PENDING)"
  using assms
  by (auto simp: TaskCreate_validate_def str_field_def optional_str_field_def
      split: option.splits json.splits if_splits Option.bind_splits)

lemma create_task_fault:
  "fst (create_task u now (Some e) task bq) = Inl (create_task_except e)"
  by (simp add: create_task_def Let_def client_query_fault)

lemma create_task_run:
  "create_task u now None task bq =
     (if 1 \<le> length (title task) \<and> length (title task) \<le> 200 \<and>
         (case description task of None \<Rightarrow> True | Some d \<Rightarrow> length d \<le> 1000)
      then Inr \<lparr>title = title task, description = description task, status = status task,
                id' = u, created_at = Datetime now None, updated_at = Datetime now None\<rparr>
      else Inl (HTTPException 500 ''Failed to create task''),
      bq\<lparr>jobs := jobs bq @ [(create_task_query (get_full_table_id bq),
            [ScalarQueryParameter ''id'' ''STRING'' (PyStr u),
             ScalarQueryParameter ''title'' ''STRING'' (PyStr (title task)),
             ScalarQueryParameter ''description'' ''STRING'' (optional_str (description task)),
             ScalarQueryParameter ''status'' ''STRING'' (PyStr (TaskStatus_value (status task))),
             ScalarQueryParameter ''created_at'' ''TIMESTAMP'' (PyDatetime (Datetime now None)),
             ScalarQueryParameter ''updated_at'' ''TIMESTAMP'' (PyDatetime (Datetime now None))])],
         table_rows := table_rows bq @
           [\<lparr>row_id = u, row_title = title task, row_description = description task,
             row_status = TaskStatus_value (status task),
             row_created_at = now, row_updated_at = now\<rparr>]\<rparr>)"
  by (simp add: create_task_def Let_def client_query_insert Task_init_eq create_task_except_def
        isinstance_GoogleAPICallError_def)

lemma join_concat: "join sep (xs @ [x]) = concat (map (\<lambda>y. y @ sep) xs) @ x"
  by (induction sep xs rule: join.induct) auto

lemma set_clause_concat:
  "set_clause (ks @ [k]) =
     concat (map (\<lambda>field. field @ '' = @'' @ field @ '', '') ks) @ k @ '' = @'' @ k"
  by (simp add: set_clause_def join_concat comp_def)

lemma update_task_query_text:
  "update_task_query tbl (ks @ [''updated_at'']) =
     ''\<newline>    UPDATE `'' @ tbl @ ''`\<newline>    SET '' @
     concat (map (\<lambda>field. field @ '' = @'' @ field @ '', '') ks) @
     ''updated_at = @updated_at\<newline>    WHERE id = @task_id\<newline>    ''"
  by (simp add: update_task_query_def set_clause_concat)

lemma updated_at_parameter:
  "ScalarQueryParameter ''updated_at'' ''TIMESTAMP'' (PyDatetime (Datetime now None))
     \<in> set (update_task_parameters i (build_update_fields req now))"
  by (simp add: update_task_parameters_def build_update_fields_def split: option.splits)

lemma update_task_parameters_not_None:
  "\<forall>p\<in>set (update_task_parameters i (build_update_fields req now)). parameter_value p \<noteq> PyNone"
  by (simp add: update_task_parameters_def build_update_fields_def parameter_value_def
      split: option.splits)

lemma update_task_client:
  assumes "fst (get_task fg i bq) = Inr prior"
  shows "jobs (snd (update_task fg now f i req bq)) =
           jobs bq @
           [(get_task_query (get_full_table_id bq),
             [ScalarQueryParameter ''task_id'' ''STRING'' (PyStr i)]),
            (update_task_query (get_full_table_id bq) (supplied_fields req @ [''updated_at'']),
             update_task_parameters i (build_update_fields req now))]"
    and "table_rows (snd (update_task fg now None i req bq)) =
           map (\<lambda>r. if row_id r = i then updated_row req now r else r) (table_rows bq)"
proof -
  note g = get_task_fst_InrD [OF assms]
  have c: "snd (get_task fg i bq) =
     bq\<lparr>jobs := jobs bq @ [(get_task_query (get_full_table_id bq),
                             [ScalarQueryParameter ''task_id'' ''STRING'' (PyStr i)])]\<rparr>"
    by (rule get_task_client)
  show "jobs (snd (update_task fg now f i req bq)) =
           jobs bq @
           [(get_task_query (get_full_table_id bq),
             [ScalarQueryParameter ''task_id'' ''STRING'' (PyStr i)]),
            (update_task_query (get_full_table_id bq) (supplied_fields req @ [''updated_at'']),
             update_task_parameters i (build_update_fields req now))]"
    by (cases f) (simp_all add: update_task_run [OF g] update_task_fault [OF g] c
        keys_build_update_fields)
  show "table_rows (snd (update_task fg now None i req bq)) =
           map (\<lambda>r. if row_id r = i then updated_row req now r else r) (table_rows bq)"
    by (simp add: update_task_run [OF g] c)
qed

lemma get_task_Inr_row:
  assumes "fst (get_task fg i bq) = Inr prior"
  shows "\<exists>r\<in>set (table_rows bq). row_id r = i"
proof -
  from get_task_InrD(2) [OF get_task_fst_InrD [OF assms]] obtain r rest where
    "filter (\<lambda>r. row_id r = i) (table_rows bq) = r # rest" by blast
  then have "r \<in> set (filter (\<lambda>r. row_id r = i) (table_rows bq))" by simp
  then show ?thesis by auto
qed

lemma delete_task_get_error:
  "get_task fg i bq = (Inl h, bq1) \<Longrightarrow> delete_task fg f i bq = (Inl h, bq1)"
  by (simp add: delete_task_def)

lemma TaskUpdate_validate_null:
  "TaskUpdate_validate (body(k \<mapsto> JNull)) = TaskUpdate_validate (body(k := None))"
  by (simp add: TaskUpdate_validate_def)

lemma rows_to_tasks_conforms:
  "\<forall>r\<in>set rs. conforms r \<Longrightarrow> \<exists>ts. rows_to_tasks rs = Inr ts \<and> map Inr ts = map row_to_task rs"
proof (induction rs)
  case Nil
  then show ?case by simp
next
  case (Cons r rs)
  then obtain ts where ts: "rows_to_tasks rs = Inr ts" "map Inr ts = map row_to_task rs"
    by auto
  from Cons.prems row_to_task_conforms [of r] obtain t where t: "row_to_task r = Inr t"
    by auto
  from ts t show ?case by simp
qed

lemma rows_to_tasks_created_at:
  "rows_to_tasks rs = Inr ts \<Longrightarrow> map (\<lambda>t. instant (created_at t)) ts = map row_created_at rs"
proof (induction rs arbitrary: ts)
  case Nil
  then show ?case by simp
next
  case (Cons r rs)
  from Cons.prems obtain t ts' where t: "row_to_task r = Inr t"
    and ts': "rows_to_tasks rs = Inr ts'" and eq: "ts = t # ts'"
    by (auto split: sum.splits)
  from row_to_task_InrD(6) [OF t] Cons.IH [OF ts'] eq show ?case by simp
qed

lemma list_tasks_None:
  "list_tasks None bq =
     (case rows_to_tasks (rev (sort_key row_created_at (table_rows bq))) of
        Inl e \<Rightarrow> Inl (list_tasks_except e)
      | Inr ts \<Rightarrow> Inr ts,
      bq\<lparr>jobs := jobs bq @ [(list_tasks_query (get_full_table_id bq), [])]\<rparr>)"
  by (simp add: list_tasks_def client_query_list split: sum.splits)

lemma sorted_wrt_descending:
  fixes xs :: "int list"
  shows "sorted xs \<Longrightarrow> sorted_wrt (\<lambda>a b. b \<le> a) (rev xs)"
  by (simp add: sorted_wrt_rev)

lemma create_task_InrD:
  assumes "create_task u now fault task bq = (Inr t, bq')"
  shows "t = \<lparr>title = title task, description = description task, status = status task,
              id' = u, created_at = Datetime now None, updated_at = Datetime now None\<rparr>"
    and "table_rows bq' = table_rows bq @
           [\<lparr>row_id = u, row_title = title task, row_description = description task,
             row_status = TaskStatus_value (status task),
             row_created_at = now, row_updated_at = now\<rparr>]"
    and "1 \<le> length (title task)" and "length (title task) \<le> 200"
    and "case description task of None \<Rightarrow> True | Some d \<Rightarrow> length d \<le> 1000"
proof -
  have f: "fault = None"
  proof (cases fault)
    case None
    then show ?thesis .
  next
    case (Some e)
    with assms create_task_fault [of u now e task bq] show ?thesis by simp
  qed
  note r = assms [unfolded f create_task_run]
  from r have v: "1 \<le> length (title task) \<and> length (title task) \<le> 200 \<and>
         (case description task of None \<Rightarrow> True | Some d \<Rightarrow> length d \<le> 1000)"
    by (auto split: if_splits)
  from v show "1 \<le> length (title task)" and "length (title task) \<le> 200"
    and "case description task of None \<Rightarrow> True | Some d \<Rightarrow> length d \<le> 1000"
    by simp_all
  from r v show "t = \<lparr>title = title task, description = description task, status = status task,
              id' = u, created_at = Datetime now None, updated_at = Datetime now None\<rparr>"
    by auto
  from r show "table_rows bq' = table_rows bq @
           [\<lparr>row_id = u, row_title = title task, row_description = description task,
             row_status = TaskStatus_value (status task),
             row_created_at = now, row_updated_at = now\<rparr>]"
    by auto
qed

lemma create_task_jobs:
  "jobs (snd (create_task u now f task bq)) =
     jobs bq @ [(create_task_query (get_full_table_id bq),
            [ScalarQueryParameter ''id'' ''STRING'' (PyStr u),
             ScalarQueryParameter ''title'' ''STRING'' (PyStr (title task)),
             ScalarQueryParameter ''description'' ''STRING'' (optional_str (description task)),
             ScalarQueryParameter ''status'' ''STRING'' (PyStr (TaskStatus_value (status task))),
             ScalarQueryParameter ''created_at'' ''TIMESTAMP'' (PyDatetime (Datetime now None)),
             ScalarQueryParameter ''updated_at'' ''TIMESTAMP'' (PyDatetime (Datetime now None))])]"
proof (cases f)
  case None
  then show ?thesis by (simp add: create_task_run)
next
  case (Some e)
  then show ?thesis by (simp add: create_task_def Let_def client_query_fault)
qed

lemma issued_jobs: "jobs bq' = jobs bq @ js \<Longrightarrow> issued bq bq' = map fst js"
  by (simp add: issued_def)

lemma get_task_fst_InlD:
  "fst (get_task fg i bq) = Inl h \<Longrightarrow> get_task fg i bq = (Inl h, snd (get_task fg i bq))"
  by (metis prod.collapse)

lemma issued_get_task:
  "issued bq (snd (get_task fg i bq)) = [get_task_query (get_full_table_id bq)]"
  by (simp add: get_task_client issued_def)

lemma issued_update_task:
  "issued bq (snd (update_task fg now f i req bq)) =
     (if isl (fst (get_task fg i bq)) then [get_task_query (get_full_table_id bq)]
      else [get_task_query (get_full_table_id bq),
            update_task_query (get_full_table_id bq) (supplied_fields req @ [''updated_at''])])"
proof (cases "fst (get_task fg i bq)")
  case (Inl h)
  from update_task_get_error [OF get_task_fst_InlD [OF Inl]] Inl show ?thesis
    by (simp add: issued_get_task)
next
  case (Inr prior)
  from issued_jobs [OF update_task_client(1) [OF Inr]] Inr show ?thesis by simp
qed

lemma delete_task_unfold:
  assumes "get_task fg i bq = (Inr prior, bq1)"
  shows "delete_task fg f i bq =
      (case client_query f (delete_task_query (get_full_table_id bq1))
              [ScalarQueryParameter ''task_id'' ''STRING'' (PyStr i)] bq1 of
         (Inl e, client2) \<Rightarrow> (Inl (delete_task_except e), client2)
       | (Inr _, client2) \<Rightarrow> (Inr [(''message'', ''Task deleted successfully'')], client2))"
  using assms by (simp add: delete_task_def Let_def)

lemma delete_task_jobs:
  assumes "fst (get_task fg i bq) = Inr prior"
  shows "jobs (snd (delete_task fg f i bq)) =
           jobs bq @
           [(get_task_query (get_full_table_id bq),
             [ScalarQueryParameter ''task_id'' ''STRING'' (PyStr i)]),
            (delete_task_query (get_full_table_id bq),
             [ScalarQueryParameter ''task_id'' ''STRING'' (PyStr i)])]"
proof -
  note d = delete_task_unfold [OF get_task_fst_InrD [OF assms]]
  have c: "snd (get_task fg i bq) =
     bq\<lparr>jobs := jobs bq @ [(get_task_query (get_full_table_id bq),
                             [ScalarQueryParameter ''task_id'' ''STRING'' (PyStr i)])]\<rparr>"
    by (rule get_task_client)
  let ?bq1 = "bq\<lparr>jobs := jobs bq @ [(get_task_query (get_full_table_id bq),
                             [ScalarQueryParameter ''task_id'' ''STRING'' (PyStr i)])]\<rparr>"
  show ?thesis
  proof (cases f)
    case None
    show ?thesis
      unfolding None d c using client_query_delete [of ?bq1 i] by simp
  next
    case (Some e)
    show ?thesis
      unfolding Some d c by (simp add: client_query_fault)
  qed
qed

lemma issued_delete_task:
  "issued bq (snd (delete_task fg f i bq)) =
     (if isl (fst (get_task fg i bq)) then [get_task_query (get_full_table_id bq)]
      else [get_task_query (get_full_table_id bq), delete_task_query (get_full_table_id bq)])"
proof (cases "fst (get_task fg i bq)")
  case (Inl h)
  from delete_task_get_error [OF get_task_fst_InlD [OF Inl]] Inl show ?thesis
    by (simp add: issued_get_task)
next
  case (Inr prior)
  from issued_jobs [OF delete_task_jobs [OF Inr]] Inr show ?thesis by simp
qed

section \<open>The handlers keep the rows conforming\<close>

lemma conforms_updated_row:
  assumes "TaskUpdate_validate body = Some req" and "conforms r"
  shows "conforms (updated_row req now r)"
  using TaskUpdate_validate_SomeD [OF assms(1)] assms(2)
  by (auto simp: conforms_def updated_row_def split: option.splits)

lemma create_task_rows:
  "table_rows (snd (create_task u now f task bq)) =
     (case f of
        None \<Rightarrow> table_rows bq @
           [\<lparr>row_id = u, row_title = title task, row_description = description task,
             row_status = TaskStatus_value (status task),
             row_created_at = now, row_updated_at = now\<rparr>]
      | Some e \<Rightarrow> table_rows bq)"
proof (cases f)
  case None
  then show ?thesis by (simp add: create_task_run)
next
  case (Some e)
  then show ?thesis by (simp add: create_task_def Let_def client_query_fault)
qed

lemma create_task_preserves_conforms:
  assumes "TaskCreate_validate body = Some task" and "\<forall>r\<in>set (table_rows bq). conforms r"
  shows "\<forall>r\<in>set (table_rows (snd (create_task u now f task bq))). conforms r"
  using TaskCreate_validate_SomeD(1-3) [OF assms(1)] assms(2)
  by (cases f) (auto simp: create_task_rows conforms_def)

lemma update_task_rows:
  "table_rows (snd (update_task fg now f i req bq)) =
     (if isl (fst (get_task fg i bq)) \<or> f \<noteq> None then table_rows bq
      else map (\<lambda>r. if row_id r = i then updated_row req now r else r) (table_rows bq))"
proof (cases "fst (get_task fg i bq)")
  case (Inl h)
  from update_task_get_error [OF get_task_fst_InlD [OF Inl]] Inl show ?thesis
    by (simp add: get_task_client)
next
  case (Inr prior)
  note g = get_task_fst_InrD [OF Inr]
  show ?thesis
  proof (cases f)
    case None
    with update_task_client(2) [OF Inr] Inr show ?thesis by simp
  next
    case (Some e)
    with Inr show ?thesis by (simp add: update_task_fault [OF g] get_task_client)
  qed
qed

lemma update_task_preserves_conforms:
  assumes "TaskUpdate_validate body = Some req" and "\<forall>r\<in>set (table_rows bq). conforms r"
  shows "\<forall>r\<in>set (table_rows (snd (update_task fg now f i req bq))). conforms r"
  using assms(2) conforms_updated_row [OF assms(1)]
  by (auto simp: update_task_rows)

lemma delete_task_rows:
  "table_rows (snd (delete_task fg f i bq)) =
     (if isl (fst (get_task fg i bq)) \<or> f \<noteq> None then table_rows bq
      else filter (\<lambda>r. row_id r \<noteq> i) (table_rows bq))"
proof (cases "fst (get_task fg i bq)")
  case (Inl h)
  from delete_task_get_error [OF get_task_fst_InlD [OF Inl]] Inl show ?thesis
    by (simp add: get_task_client)
next
  case (Inr prior)
  note d = delete_task_unfold [OF get_task_fst_InrD [OF Inr]]
  let ?bq1 = "bq\<lparr>jobs := jobs bq @ [(get_task_query (get_full_table_id bq),
                             [ScalarQueryParameter ''task_id'' ''STRING'' (PyStr i)])]\<rparr>"
  show ?thesis
  proof (cases f)
    case None
    show ?thesis
      unfolding None d get_task_client using client_query_delete [of ?bq1 i] Inr by simp
  next
    case (Some e)
    show ?thesis
      unfolding Some d get_task_client using Inr by (simp add: client_query_fault)
  qed
qed

lemma delete_task_preserves_conforms:
  assumes "\<forall>r\<in>set (table_rows bq). conforms r"
  shows "\<forall>r\<in>set (table_rows (snd (delete_task fg f i bq))). conforms r"
  using assms by (simp add: delete_task_rows)

lemma delete_then_get_404:
  assumes "fst (delete_task fg None i bq) = Inr m"
  shows "fst (get_task None i (snd (delete_task fg None i bq))) =
           Inl (HTTPException 404 ''Task not found'')"
proof -
  have "\<not> isl (fst (get_task fg i bq))"
  proof
    assume "isl (fst (get_task fg i bq))"
    then obtain h where h: "fst (get_task fg i bq) = Inl h"
      by (cases "fst (get_task fg i bq)") simp_all
    from delete_task_get_error [OF get_task_fst_InlD [OF h]] assms show False by simp
  qed
  then have "table_rows (snd (delete_task fg None i bq)) = filter (\<lambda>r. row_id r \<noteq> i) (table_rows bq)"
    by (simp add: delete_task_rows)
  then show ?thesis
    by (simp add: get_task_None get_task_results_Nil)
qed

lemma list_tasks_rows: "table_rows (snd (list_tasks f bq)) = table_rows bq"
proof (cases f)
  case None
  then show ?thesis by (simp add: list_tasks_None)
next
  case (Some e)
  then show ?thesis by (simp add: list_tasks_def client_query_fault)
qed

lemma get_task_rows: "table_rows (snd (get_task f i bq)) = table_rows bq"
  by (simp add: get_task_client)

lemma reachable_conforms: "reachable bq \<Longrightarrow> \<forall>r\<in>set (table_rows bq). conforms r"
proof (induction rule: reachable.induct)
  case (provisioned p d t)
  show ?case by simp
next
  case (created bq body task new_id now fault)
  from create_task_preserves_conforms [OF created.hyps(2) created.IH] show ?case .
next
  case (listed bq fault)
  then show ?case by (simp only: list_tasks_rows)
next
  case (fetched bq fault task_id)
  then show ?case by (simp only: get_task_rows)
next
  case (updated bq body req fault_get now fault task_id)
  from update_task_preserves_conforms [OF updated.hyps(2) updated.IH] show ?case .
next
  case (deleted bq fault_get fault task_id)
  from delete_task_preserves_conforms [OF deleted.IH] show ?case .
qed

section \<open>Properties of the handlers\<close>

text \<open>
  C1. When the existence check of \<open>update_task\<close> finds the task \<open>prior\<close> and the request
  body validates to \<open>req\<close>, the handler returns the merge of \<open>prior\<close> and \<open>req\<close> if the
  \<^verbatim>\<open>UPDATE\<close> job does not fail, and the error mapped from the job's exception if it does.
  In the merge each supplied field has the supplied value, each absent field the prior
  one, \<open>id\<close> is the requested id, \<open>created_at\<close> is the prior one and \<open>updated_at\<close> reads
  the clock value \<open>now\<close>, which is later than the instant of the prior \<open>updated_at\<close> when
  the clock has advanced past it.
\<close>

theorem update_task_returns_merged:
  assumes "fst (get_task fault_get task_id bq) = Inr prior"
      and "TaskUpdate_validate body = Some req"
  shows "fst (update_task fault_get now fault task_id req bq) =
           (case fault of
              None \<Rightarrow> Inr (merged prior req now)
            | Some e \<Rightarrow> Inl (update_task_except e)) \<and>
         id' (merged prior req now) = task_id \<and>
         (instant (updated_at prior) < now \<longrightarrow>
            instant (updated_at prior) < instant (updated_at (merged prior req now)))"
proof -
  note g = get_task_fst_InrD [OF assms(1)]
  have "fst (update_task fault_get now fault task_id req bq) =
           (case fault of
              None \<Rightarrow> Inr (merged prior req now)
            | Some e \<Rightarrow> Inl (update_task_except e))"
  proof (cases fault)
    case None
    then show ?thesis
      using TaskUpdate_validate_SomeD [OF assms(2)] by (simp add: update_task_run [OF g])
  next
    case (Some e)
    then show ?thesis by (simp add: update_task_fault [OF g])
  qed
  moreover have "id' (merged prior req now) = task_id"
    using get_task_Inr_fields(1) [OF g] by (simp add: merged_def)
  moreover have "instant (updated_at (merged prior req now)) = now"
    by (simp add: merged_def)
  ultimately show ?thesis by simp
qed

theorem update_task_returns_merged_witness:
  "fst (get_task None ''u1'' example_client) =
     Inr \<lparr>title = ''a'', description = Some ''x'', status = PENDING, id' = ''u1'',
          created_at = Datetime 5 (Some UTC),
          updated_at = Datetime 5 (Some UTC)\<rparr> \<and>
   TaskUpdate_validate [''status'' \<mapsto> JStr ''completed''] =
     Some \<lparr>upd_title = None, upd_description = None, upd_status = Some COMPLETED\<rparr> \<and>
   fst (update_task None 20 None ''u1''
          \<lparr>upd_title = None, upd_description = None, upd_status = Some COMPLETED\<rparr>
          example_client) =
     Inr \<lparr>title = ''a'', description = Some ''x'', status = COMPLETED, id' = ''u1'',
          created_at = Datetime 5 (Some UTC),
          updated_at = Datetime 20 None\<rparr> \<and>
   (5::int) < 20"
proof -
  have g: "fst (get_task None ''u1'' example_client) =
     Inr \<lparr>title = ''a'', description = Some ''x'', status = PENDING, id' = ''u1'',
          created_at = Datetime 5 (Some UTC),
          updated_at = Datetime 5 (Some UTC)\<rparr>"
    by (simp add: get_task_None example_client_def get_task_results_Cons row_to_task_eq
          TaskStatus_of_def)
  have v: "TaskUpdate_validate [''status'' \<mapsto> JStr ''completed''] =
     Some \<lparr>upd_title = None, upd_description = None, upd_status = Some COMPLETED\<rparr>"
    by (simp add: TaskUpdate_validate_def TaskStatus_of_def)
  show ?thesis
    using update_task_returns_merged [OF g v, of 20 None] g v by (simp add: merged_def)
qed

text \<open>
  C2. For a request body that validates to \<open>task\<close> (so its title has 1 to 200
  characters), \<open>create_task\<close> returns, when the \<^verbatim>\<open>INSERT\<close> job does not fail, the task
  whose \<open>created_at\<close> and \<open>updated_at\<close> are both the naive datetime of the clock value
  \<open>now\<close>, read once,
  whose id is the generated one, and whose title, description and status are those of
  the request: the title and description of the body, and the status \<open>PENDING\<close> when
  the body has no status member.
\<close>

theorem create_task_returns:
  assumes "TaskCreate_validate body = Some task"
  shows "fst (create_task uuid4 now fault task bq) =
           (case fault of
              None \<Rightarrow> Inr \<lparr>title = title task, description = description task,
                            status = status task, id' = uuid4,
                            created_at = Datetime now None, updated_at = Datetime now None\<rparr>
            | Some e \<Rightarrow> Inl (create_task_except e)) \<and>
         body ''title'' = Some (JStr (title task)) \<and>
         description task = (case body ''description'' of Some (JStr s) \<Rightarrow> Some s | _ \<Rightarrow> None) \<and>
         (body ''status'' = None \<longrightarrow> status task = PENDING)"
proof -
  note v = TaskCreate_validate_SomeD [OF assms]
  have "fst (create_task uuid4 now fault task bq) =
           (case fault of
              None \<Rightarrow> Inr \<lparr>title = title task, description = description task,
                            status = status task, id' = uuid4,
                            created_at = Datetime now None, updated_at = Datetime now None\<rparr>
            | Some e \<Rightarrow> Inl (create_task_except e))"
    using v(1-3) by (cases fault) (simp_all add: create_task_run create_task_fault)
  moreover have "body ''status'' = None \<longrightarrow> status task = PENDING"
    using v(6) by simp
  ultimately show ?thesis using v(4,5) by simp
qed

theorem create_task_returns_witness:
  "TaskCreate_validate [''title'' \<mapsto> JStr ''buy milk''] =
     Some \<lparr>title = ''buy milk'', description = None, status = PENDING\<rparr> \<and>
   fst (create_task ''u3'' 11 None \<lparr>title = ''buy milk'', description = None, status = PENDING\<rparr>
          example_client) =
     Inr \<lparr>title = ''buy milk'', description = None, status = PENDING, id' = ''u3'',
          created_at = Datetime 11 None, updated_at = Datetime 11 None\<rparr>"
proof -
  have v: "TaskCreate_validate [''title'' \<mapsto> JStr ''buy milk''] =
     Some \<lparr>title = ''buy milk'', description = None, status = PENDING\<rparr>"
    by (simp add: TaskCreate_validate_def str_field_def)
  show ?thesis
    using create_task_returns [OF v, of "''u3''" 11 None example_client] v by simp
qed



text \<open>
  C4. When the existence check of \<open>update_task\<close> finds the task, the handler submits
  exactly two jobs: the \<^verbatim>\<open>SELECT\<close> of the check and then the \<^verbatim>\<open>UPDATE\<close>, whatever the
  request supplies. The text of the \<^verbatim>\<open>UPDATE\<close> is written out below: its \<^verbatim>\<open>SET\<close> clause
  lists the supplied fields, each followed by a comma, and ends with
  \<^verbatim>\<open>updated_at = @updated_at\<close>; for a request that supplies no field the clause is
  \<^verbatim>\<open>updated_at = @updated_at\<close> alone. The parameter \<open>updated_at\<close> is bound to the naive
  datetime of the clock value \<open>now\<close> as a \<^verbatim>\<open>TIMESTAMP\<close>. When the \<^verbatim>\<open>UPDATE\<close> job does
  not fail, the store, reading that text, leaves a table that holds a row with the
  requested id, and in which every row with that id has \<open>updated_at = now\<close>.
\<close>

theorem update_task_always_sets_updated_at:
  assumes "fst (get_task fault_get task_id bq) = Inr prior"
  shows "jobs (snd (update_task fault_get now fault task_id req bq)) =
           jobs bq @
           [(get_task_query (get_full_table_id bq),
             [ScalarQueryParameter ''task_id'' ''STRING'' (PyStr task_id)]),
            (''\<newline>    UPDATE `'' @ get_full_table_id bq @ ''`\<newline>    SET '' @
               concat (map (\<lambda>field. field @ '' = @'' @ field @ '', '') (supplied_fields req)) @
               ''updated_at = @updated_at\<newline>    WHERE id = @task_id\<newline>    '',
             update_task_parameters task_id (build_update_fields req now))] \<and>
         ScalarQueryParameter ''updated_at'' ''TIMESTAMP'' (PyDatetime (Datetime now None))
           \<in> set (update_task_parameters task_id (build_update_fields req now)) \<and>
         (fault = None \<longrightarrow>
            table_rows (snd (update_task fault_get now fault task_id req bq)) =
              map (\<lambda>r. if row_id r = task_id then updated_row req now r else r) (table_rows bq) \<and>
            (\<exists>r\<in>set (table_rows (snd (update_task fault_get now fault task_id req bq))).
                row_id r = task_id) \<and>
            (\<forall>r\<in>set (table_rows (snd (update_task fault_get now fault task_id req bq))).
                row_id r = task_id \<longrightarrow> row_updated_at r = now))"
proof -
  let ?f = "\<lambda>r. if row_id r = task_id then updated_row req now r else r"
  let ?after = "snd (update_task fault_get now fault task_id req bq)"
  have jobs_eq: "jobs ?after =
           jobs bq @
           [(get_task_query (get_full_table_id bq),
             [ScalarQueryParameter ''task_id'' ''STRING'' (PyStr task_id)]),
            (''\<newline>    UPDATE `'' @ get_full_table_id bq @ ''`\<newline>    SET '' @
               concat (map (\<lambda>field. field @ '' = @'' @ field @ '', '') (supplied_fields req)) @
               ''updated_at = @updated_at\<newline>    WHERE id = @task_id\<newline>    '',
             update_task_parameters task_id (build_update_fields req now))]"
    unfolding update_task_client(1) [OF assms] update_task_query_text ..
  have par: "ScalarQueryParameter ''updated_at'' ''TIMESTAMP'' (PyDatetime (Datetime now None))
           \<in> set (update_task_parameters task_id (build_update_fields req now))"
    by (rule updated_at_parameter)
  have persisted: "table_rows ?after = map ?f (table_rows bq) \<and>
            (\<exists>r\<in>set (table_rows ?after). row_id r = task_id) \<and>
            (\<forall>r\<in>set (table_rows ?after). row_id r = task_id \<longrightarrow> row_updated_at r = now)"
    if "fault = None"
  proof -
    have rows: "table_rows ?after = map ?f (table_rows bq)"
      unfolding that by (rule update_task_client(2) [OF assms])
    from get_task_Inr_row [OF assms] obtain r where
      r: "r \<in> set (table_rows bq)" "row_id r = task_id" by blast
    have "?f r \<in> set (map ?f (table_rows bq))"
      unfolding set_map using r(1) by (rule imageI)
    moreover have "row_id (?f r) = task_id"
      using r(2) by (simp add: updated_row_def)
    ultimately have ex: "\<exists>r\<in>set (map ?f (table_rows bq)). row_id r = task_id"
      by blast
    have all: "row_updated_at r' = now"
      if "r' \<in> set (map ?f (table_rows bq))" and "row_id r' = task_id" for r'
    proof -
      from that(1) obtain r0 where "r' = ?f r0" by (auto simp only: set_map)
      with that(2) show ?thesis by (cases "row_id r0 = task_id") (simp_all add: updated_row_def)
    qed
    show ?thesis
      using ex all unfolding rows by blast
  qed
  show ?thesis
    using jobs_eq par persisted by blast
qed

theorem update_task_always_sets_updated_at_witness:
  "fst (get_task None ''u1'' example_client) =
     Inr \<lparr>title = ''a'', description = Some ''x'', status = PENDING, id' = ''u1'',
          created_at = Datetime 5 (Some UTC),
          updated_at = Datetime 5 (Some UTC)\<rparr> \<and>
   map fst (jobs (snd (update_task None 20 None ''u1''
      \<lparr>upd_title = None, upd_description = None, upd_status = None\<rparr> example_client))) =
     [''\<newline>    SELECT id, title, description, status, created_at, updated_at\<newline>    FROM `p.d.t`\<newline>    WHERE id = @task_id\<newline>    '',
      ''\<newline>    UPDATE `p.d.t`\<newline>    SET updated_at = @updated_at\<newline>    WHERE id = @task_id\<newline>    ''] \<and>
   map fst (jobs (snd (update_task None 20 None ''u1''
      \<lparr>upd_title = Some ''c'', upd_description = None, upd_status = Some COMPLETED\<rparr>
      example_client))) =
     [''\<newline>    SELECT id, title, description, status, created_at, updated_at\<newline>    FROM `p.d.t`\<newline>    WHERE id = @task_id\<newline>    '',
      ''\<newline>    UPDATE `p.d.t`\<newline>    SET title = @title, status = @status, updated_at = @updated_at\<newline>    WHERE id = @task_id\<newline>    ''] \<and>
   map row_updated_at (table_rows (snd (update_task None 20 None ''u1''
      \<lparr>upd_title = None, upd_description = None, upd_status = None\<rparr> example_client))) =
     [20, 8]"
proof -
  have g: "fst (get_task None ''u1'' example_client) =
     Inr \<lparr>title = ''a'', description = Some ''x'', status = PENDING, id' = ''u1'',
          created_at = Datetime 5 (Some UTC),
          updated_at = Datetime 5 (Some UTC)\<rparr>"
    by (simp add: get_task_None example_client_def get_task_results_Cons row_to_task_eq
          TaskStatus_of_def)
  show ?thesis
    using update_task_always_sets_updated_at [OF g, of 20 None
        "\<lparr>upd_title = None, upd_description = None, upd_status = None\<rparr>"]
      update_task_always_sets_updated_at [OF g, of 20 None
        "\<lparr>upd_title = Some ''c'', upd_description = None, upd_status = Some COMPLETED\<rparr>"] g
    by (simp add: example_client_def supplied_fields_def get_full_table_id_def updated_row_def
          get_task_query_def)
qed

text \<open>
  C5. When no row of the table has the requested id and the \<^verbatim>\<open>SELECT\<close> of the check
  does not fail, \<open>get_task\<close> answers 404, and \<open>update_task\<close> and \<open>delete_task\<close> return
  that same error together with the client exactly as the check left it: the only job
  submitted is the \<^verbatim>\<open>SELECT\<close> of the check, and the rows of the table are unchanged.
\<close>

theorem missing_task_propagates_404:
  assumes "\<forall>r\<in>set (table_rows bq). row_id r \<noteq> task_id"
  shows "fst (get_task None task_id bq) = Inl (HTTPException 404 ''Task not found'') \<and>
         update_task None now fault task_id req bq =
           (Inl (HTTPException 404 ''Task not found''), snd (get_task None task_id bq)) \<and>
         delete_task None fault task_id bq =
           (Inl (HTTPException 404 ''Task not found''), snd (get_task None task_id bq)) \<and>
         table_rows (snd (get_task None task_id bq)) = table_rows bq \<and>
         issued bq (snd (get_task None task_id bq)) = [get_task_query (get_full_table_id bq)]"
proof -
  from assms have "filter (\<lambda>r. row_id r = task_id) (table_rows bq) = []"
    by (simp add: filter_empty_conv)
  then have g: "get_task None task_id bq =
      (Inl (HTTPException 404 ''Task not found''), snd (get_task None task_id bq))"
    by (simp add: get_task_None get_task_results_Nil)
  have "table_rows (snd (get_task None task_id bq)) = table_rows bq"
    and "issued bq (snd (get_task None task_id bq)) = [get_task_query (get_full_table_id bq)]"
    by (simp_all add: get_task_client issued_def)
  moreover have "fst (get_task None task_id bq) = Inl (HTTPException 404 ''Task not found'')"
    using g by (metis fst_conv)
  ultimately show ?thesis
    using update_task_get_error [OF g] delete_task_get_error [OF g] by simp
qed

theorem missing_task_propagates_404_witness:
  "map row_id (table_rows example_client) = [''u1'', ''u2''] \<and>
   fst (update_task None 20 None ''zz''
          \<lparr>upd_title = Some ''c'', upd_description = None, upd_status = None\<rparr> example_client) =
     Inl (HTTPException 404 ''Task not found'') \<and>
   table_rows (snd (update_task None 20 None ''zz''
          \<lparr>upd_title = Some ''c'', upd_description = None, upd_status = None\<rparr> example_client)) =
     table_rows example_client \<and>
   fst (delete_task None None ''zz'' example_client) =
     Inl (HTTPException 404 ''Task not found'') \<and>
   table_rows (snd (delete_task None None ''zz'' example_client)) = table_rows example_client"
proof -
  have absent: "\<forall>r\<in>set (table_rows example_client). row_id r \<noteq> ''zz''"
    by (simp add: example_client_def)
  have ids: "map row_id (table_rows example_client) = [''u1'', ''u2'']"
    by (simp add: example_client_def)
  show ?thesis
    using missing_task_propagates_404 [OF absent, of 20 None
        "\<lparr>upd_title = Some ''c'', upd_description = None, upd_status = None\<rparr>"]
      missing_task_propagates_404 [OF absent, of 20 None] ids
    by simp
qed

text \<open>
  C6. For a table whose rows conform to the schema, and when the \<^verbatim>\<open>SELECT\<close> job does not
  fail, \<open>list_tasks\<close> returns a list of tasks (the empty list for the empty table) that
  holds exactly the tasks built from the rows of the table, each as often as its row
  occurs, in descending order of the instant of \<open>created_at\<close>: no task of the list was
  created later than the first one. The order is the one the store gives to the text
  the handler submits, which ends in \<^verbatim>\<open>ORDER BY created_at DESC\<close>; the handler keeps it.
  The table is left as it was.
\<close>

theorem list_tasks_most_recent_first:
  assumes "\<forall>r\<in>set (table_rows bq). conforms r"
  shows "\<exists>tasks. fst (list_tasks None bq) = Inr tasks \<and>
           mset (map Inr tasks) = mset (map row_to_task (table_rows bq)) \<and>
           sorted_wrt (\<lambda>a b. instant (created_at b) \<le> instant (created_at a)) tasks \<and>
           (\<forall>t\<in>set tasks. instant (created_at t) \<le> instant (created_at (hd tasks))) \<and>
           table_rows (snd (list_tasks None bq)) = table_rows bq \<and>
           issued bq (snd (list_tasks None bq)) =
             [''\<newline>    SELECT id, title, description, status, created_at, updated_at\<newline>    FROM `'' @
              get_full_table_id bq @ ''`\<newline>    ORDER BY created_at DESC\<newline>    '']"
proof -
  let ?results = "rev (sort_key row_created_at (table_rows bq))"
  have "\<forall>r\<in>set ?results. conforms r" using assms by simp
  from rows_to_tasks_conforms [OF this] obtain tasks where
    tasks: "rows_to_tasks ?results = Inr tasks" "map Inr tasks = map row_to_task ?results"
    by blast
  have ret: "fst (list_tasks None bq) = Inr tasks"
    by (simp add: list_tasks_None tasks(1))
  have "mset (map row_to_task ?results) = mset (map row_to_task (table_rows bq))"
    by simp
  then have perm: "mset (map Inr tasks) = mset (map row_to_task (table_rows bq))"
    by (simp only: tasks(2))
  have c: "map (\<lambda>t. instant (created_at t)) tasks =
      rev (map row_created_at (sort_key row_created_at (table_rows bq)))"
    using rows_to_tasks_created_at [OF tasks(1)] by (simp add: rev_map)
  have "sorted_wrt (\<lambda>a b. b \<le> a) (map (\<lambda>t. instant (created_at t)) tasks)"
    unfolding c by (rule sorted_wrt_descending) simp
  then have sorted: "sorted_wrt (\<lambda>a b. instant (created_at b) \<le> instant (created_at a)) tasks"
    by (simp only: sorted_wrt_map)
  have first: "\<forall>t\<in>set tasks. instant (created_at t) \<le> instant (created_at (hd tasks))"
  proof (cases tasks)
    case Nil
    then show ?thesis by simp
  next
    case (Cons t ts)
    with sorted show ?thesis by auto
  qed
  have "table_rows (snd (list_tasks None bq)) = table_rows bq"
    by (simp add: list_tasks_None)
  moreover have "issued bq (snd (list_tasks None bq)) =
             [''\<newline>    SELECT id, title, description, status, created_at, updated_at\<newline>    FROM `'' @
              get_full_table_id bq @ ''`\<newline>    ORDER BY created_at DESC\<newline>    '']"
    by (simp add: list_tasks_None issued_def list_tasks_query_def)
  ultimately show ?thesis using ret perm sorted first by blast
qed

theorem list_tasks_most_recent_first_witness:
  "map row_created_at (table_rows example_client) = [5, 7] \<and>
   fst (list_tasks None example_client) =
     Inr [\<lparr>title = ''b'', description = None, status = IN_PROGRESS, id' = ''u2'',
           created_at = Datetime 7 (Some UTC),
          updated_at = Datetime 8 (Some UTC)\<rparr>,
          \<lparr>title = ''a'', description = Some ''x'', status = PENDING, id' = ''u1'',
           created_at = Datetime 5 (Some UTC),
          updated_at = Datetime 5 (Some UTC)\<rparr>] \<and>
   (\<exists>tasks. fst (list_tasks None example_client) = Inr tasks \<and>
      mset (map Inr tasks) = mset (map row_to_task (table_rows example_client)) \<and>
      sorted_wrt (\<lambda>a b. instant (created_at b) \<le> instant (created_at a)) tasks)"
proof -
  have ok: "\<forall>r\<in>set (table_rows example_client). conforms r"
    by (simp add: example_client_def conforms_def TaskStatus_of_def)
  have ts: "map row_created_at (table_rows example_client) = [5, 7]"
    by (simp add: example_client_def)
  have l: "fst (list_tasks None example_client) =
     Inr [\<lparr>title = ''b'', description = None, status = IN_PROGRESS, id' = ''u2'',
           created_at = Datetime 7 (Some UTC),
          updated_at = Datetime 8 (Some UTC)\<rparr>,
          \<lparr>title = ''a'', description = Some ''x'', status = PENDING, id' = ''u1'',
           created_at = Datetime 5 (Some UTC),
          updated_at = Datetime 5 (Some UTC)\<rparr>]"
    by (simp add: list_tasks_None example_client_def row_to_task_eq TaskStatus_of_def)
  from list_tasks_most_recent_first [OF ok] have
    "\<exists>tasks. fst (list_tasks None example_client) = Inr tasks \<and>
      mset (map Inr tasks) = mset (map row_to_task (table_rows example_client)) \<and>
      sorted_wrt (\<lambda>a b. instant (created_at b) \<le> instant (created_at a)) tasks"
    by blast
  with ts l show ?thesis by blast
qed

text \<open>
  C7, as amended. When \<open>create_task\<close> returns the task \<open>t\<close>, and the generated id was not
  the id of a row already in the table (as the source expects of \<^verbatim>\<open>uuid4\<close>), then
  \<open>get_task\<close> for the id of \<open>t\<close>, run on the client as the creation left it and with a
  \<^verbatim>\<open>SELECT\<close> job that does not fail, returns a task with the id, title, description and
  status of \<open>t\<close>, and with a \<open>created_at\<close> and an \<open>updated_at\<close> that read the same instants
  as those of \<open>t\<close>. The timestamps of \<open>t\<close> are naive datetimes, as \<open>create_task\<close> has
  stripped their zone; those of the task read back are aware of UTC, as the driver
  hands them back. The row read back is the one the store added for the \<^verbatim>\<open>INSERT\<close>
  text that \<open>create_task\<close> submitted, written out below with its parameters.
\<close>

theorem create_then_get_same_instants:
  assumes "create_task uuid4 now fault task bq = (Inr t, bq')"
      and "\<forall>r\<in>set (table_rows bq). row_id r \<noteq> uuid4"
  shows "\<exists>t'. fst (get_task None (id' t) bq') = Inr t' \<and>
           id' t' = id' t \<and> title t' = title t \<and> description t' = description t \<and>
           status t' = status t \<and>
           instant (created_at t') = instant (created_at t) \<and>
           instant (updated_at t') = instant (updated_at t) \<and>
           tzinfo (created_at t) = None \<and> tzinfo (updated_at t) = None \<and>
           tzinfo (created_at t') = Some UTC \<and> tzinfo (updated_at t') = Some UTC \<and>
           jobs bq' =
             jobs bq @
             [(''\<newline>    INSERT INTO `'' @ get_full_table_id bq @
               ''` \<newline>    (id, title, description, status, created_at, updated_at)\<newline>    VALUES (@id, @title, @description, @status, @created_at, @updated_at)\<newline>    '',
               [ScalarQueryParameter ''id'' ''STRING'' (PyStr uuid4),
                ScalarQueryParameter ''title'' ''STRING'' (PyStr (title task)),
                ScalarQueryParameter ''description'' ''STRING'' (optional_str (description task)),
                ScalarQueryParameter ''status'' ''STRING'' (PyStr (TaskStatus_value (status task))),
                ScalarQueryParameter ''created_at'' ''TIMESTAMP'' (PyDatetime (Datetime now None)),
                ScalarQueryParameter ''updated_at'' ''TIMESTAMP'' (PyDatetime (Datetime now None))])]"
proof -
  note c = create_task_InrD [OF assms(1)]
  have j: "jobs bq' =
             jobs bq @
             [(''\<newline>    INSERT INTO `'' @ get_full_table_id bq @
               ''` \<newline>    (id, title, description, status, created_at, updated_at)\<newline>    VALUES (@id, @title, @description, @status, @created_at, @updated_at)\<newline>    '',
               [ScalarQueryParameter ''id'' ''STRING'' (PyStr uuid4),
                ScalarQueryParameter ''title'' ''STRING'' (PyStr (title task)),
                ScalarQueryParameter ''description'' ''STRING'' (optional_str (description task)),
                ScalarQueryParameter ''status'' ''STRING'' (PyStr (TaskStatus_value (status task))),
                ScalarQueryParameter ''created_at'' ''TIMESTAMP'' (PyDatetime (Datetime now None)),
                ScalarQueryParameter ''updated_at'' ''TIMESTAMP'' (PyDatetime (Datetime now None))])]"
    using create_task_jobs [of uuid4 now fault task bq] assms(1)
    by (simp add: create_task_query_def)
  let ?row = "\<lparr>row_id = uuid4, row_title = title task, row_description = description task,
             row_status = TaskStatus_value (status task),
             row_created_at = now, row_updated_at = now\<rparr>"
  let ?t' = "\<lparr>title = title task, description = description task, status = status task,
             id' = uuid4, created_at = Datetime now (Some UTC),
             updated_at = Datetime now (Some UTC)\<rparr>"
  have i: "id' t = uuid4" using c(1) by simp
  from assms(2) have "filter (\<lambda>r. row_id r = uuid4) (table_rows bq) = []"
    by (simp add: filter_empty_conv)
  then have f: "filter (\<lambda>r. row_id r = uuid4) (table_rows bq') = [?row]"
    by (simp add: c(2))
  have "row_to_task ?row = Inr ?t'"
    using c(3-5) by (simp add: row_to_task_eq)
  then have "fst (get_task None (id' t) bq') = Inr ?t'"
    by (simp add: get_task_None i f get_task_results_Cons)
  then have "\<exists>t'. fst (get_task None (id' t) bq') = Inr t' \<and>
           id' t' = id' t \<and> title t' = title t \<and> description t' = description t \<and>
           status t' = status t \<and>
           instant (created_at t') = instant (created_at t) \<and>
           instant (updated_at t') = instant (updated_at t) \<and>
           tzinfo (created_at t) = None \<and> tzinfo (updated_at t) = None \<and>
           tzinfo (created_at t') = Some UTC \<and> tzinfo (updated_at t') = Some UTC"
    by (simp add: c(1))
  with j show ?thesis by blast
qed

theorem create_then_get_same_instants_witness:
  "map row_id (table_rows example_client) = [''u1'', ''u2''] \<and>
   fst (create_task ''u3'' 11 None
          \<lparr>title = ''buy milk'', description = Some ''2 l'', status = COMPLETED\<rparr> example_client) =
     Inr \<lparr>title = ''buy milk'', description = Some ''2 l'', status = COMPLETED, id' = ''u3'',
          created_at = Datetime 11 None, updated_at = Datetime 11 None\<rparr> \<and>
   (\<exists>t'. fst (get_task None ''u3''
            (snd (create_task ''u3'' 11 None
               \<lparr>title = ''buy milk'', description = Some ''2 l'', status = COMPLETED\<rparr>
               example_client))) = Inr t' \<and>
         id' t' = ''u3'' \<and> title t' = ''buy milk'' \<and> description t' = Some ''2 l'' \<and>
         status t' = COMPLETED \<and>
         instant (created_at t') = 11 \<and> instant (updated_at t') = 11 \<and>
         tzinfo (created_at t') = Some UTC \<and> tzinfo (updated_at t') = Some UTC)"
proof -
  let ?task = "\<lparr>title = ''buy milk'', description = Some ''2 l'', status = COMPLETED\<rparr>"
  let ?t = "\<lparr>title = ''buy milk'', description = Some ''2 l'', status = COMPLETED, id' = ''u3'',
          created_at = Datetime 11 None, updated_at = Datetime 11 None\<rparr>"
  have ids: "map row_id (table_rows example_client) = [''u1'', ''u2'']"
    by (simp add: example_client_def)
  have fresh: "\<forall>r\<in>set (table_rows example_client). row_id r \<noteq> ''u3''"
    by (simp add: example_client_def)
  have cf: "fst (create_task ''u3'' 11 None ?task example_client) = Inr ?t"
    by (simp add: create_task_run)
  then have c: "create_task ''u3'' 11 None ?task example_client =
      (Inr ?t, snd (create_task ''u3'' 11 None ?task example_client))"
    by (metis prod.collapse)
  from create_then_get_same_instants [OF c fresh] obtain t' where
    t': "fst (get_task None (id' ?t)
              (snd (create_task ''u3'' 11 None ?task example_client))) = Inr t'"
      "id' t' = id' ?t" "title t' = title ?t" "description t' = description ?t"
      "status t' = status ?t"
      "instant (created_at t') = instant (created_at ?t)"
      "instant (updated_at t') = instant (updated_at ?t)"
      "tzinfo (created_at t') = Some UTC" "tzinfo (updated_at t') = Some UTC"
    by blast
  have "fst (get_task None ''u3''
            (snd (create_task ''u3'' 11 None ?task example_client))) = Inr t' \<and>
         id' t' = ''u3'' \<and> title t' = ''buy milk'' \<and> description t' = Some ''2 l'' \<and>
         status t' = COMPLETED \<and>
         instant (created_at t') = 11 \<and> instant (updated_at t') = 11 \<and>
         tzinfo (created_at t') = Some UTC \<and> tzinfo (updated_at t') = Some UTC"
    using t' by simp
  then have
    "\<exists>t'. fst (get_task None ''u3''
            (snd (create_task ''u3'' 11 None ?task example_client))) = Inr t' \<and>
         id' t' = ''u3'' \<and> title t' = ''buy milk'' \<and> description t' = Some ''2 l'' \<and>
         status t' = COMPLETED \<and>
         instant (created_at t') = 11 \<and> instant (updated_at t') = 11 \<and>
         tzinfo (created_at t') = Some UTC \<and> tzinfo (updated_at t') = Some UTC"
    by (rule exI)
  with cf ids show ?thesis by blast
qed

text \<open>
  The claim C7 as it was stated, that the task read back equals the task that
  \<open>create_task\<close> returned in every field, fails: after creating a task at the instant 11
  in the example table, the task read back differs from the one returned in
  \<open>created_at\<close> and \<open>updated_at\<close>.
\<close>

theorem create_then_get_round_trip_counterexample:
  "fst (create_task ''u3'' 11 None
          \<lparr>title = ''buy milk'', description = Some ''2 l'', status = COMPLETED\<rparr> example_client) =
     Inr \<lparr>title = ''buy milk'', description = Some ''2 l'', status = COMPLETED, id' = ''u3'',
          created_at = Datetime 11 None, updated_at = Datetime 11 None\<rparr> \<and>
   fst (get_task None ''u3''
          (snd (create_task ''u3'' 11 None
             \<lparr>title = ''buy milk'', description = Some ''2 l'', status = COMPLETED\<rparr>
             example_client))) =
     Inr \<lparr>title = ''buy milk'', description = Some ''2 l'', status = COMPLETED, id' = ''u3'',
          created_at = Datetime 11 (Some UTC), updated_at = Datetime 11 (Some UTC)\<rparr> \<and>
   fst (get_task None ''u3''
          (snd (create_task ''u3'' 11 None
             \<lparr>title = ''buy milk'', description = Some ''2 l'', status = COMPLETED\<rparr>
             example_client))) \<noteq>
   fst (create_task ''u3'' 11 None
          \<lparr>title = ''buy milk'', description = Some ''2 l'', status = COMPLETED\<rparr> example_client)"
  by (simp add: create_task_run get_task_None example_client_def get_task_results_Cons
        row_to_task_eq TaskStatus_of_def)

text \<open>
  C8. The texts of the queries a handler submits do not depend on the values of the
  request. \<open>create_task\<close> submits the one \<^verbatim>\<open>INSERT\<close> text and \<open>get_task\<close> the one
  \<^verbatim>\<open>SELECT\<close> text, whatever the id, title, description and status are; those values
  are the bound parameters of the job. \<open>update_task\<close> and \<open>delete_task\<close> submit the
  \<^verbatim>\<open>SELECT\<close> text of the existence check and, when the check found the task, the
  \<^verbatim>\<open>UPDATE\<close> or \<^verbatim>\<open>DELETE\<close> text. All these texts are built from the table name alone,
  except the \<^verbatim>\<open>UPDATE\<close> text, which also depends on which fields the request supplies
  (their names, not their values): two update requests that supply the same fields
  build the same \<^verbatim>\<open>UPDATE\<close> text.
\<close>

theorem query_text_independent_of_values:
  "issued bq (snd (create_task new_id now fault task bq)) =
     [create_task_query (get_full_table_id bq)] \<and>
   snd (last (jobs (snd (create_task new_id now fault task bq)))) =
     [ScalarQueryParameter ''id'' ''STRING'' (PyStr new_id),
      ScalarQueryParameter ''title'' ''STRING'' (PyStr (title task)),
      ScalarQueryParameter ''description'' ''STRING'' (optional_str (description task)),
      ScalarQueryParameter ''status'' ''STRING'' (PyStr (TaskStatus_value (status task))),
      ScalarQueryParameter ''created_at'' ''TIMESTAMP'' (PyDatetime (Datetime now None)),
      ScalarQueryParameter ''updated_at'' ''TIMESTAMP'' (PyDatetime (Datetime now None))] \<and>
   issued bq (snd (get_task fault task_id bq)) = [get_task_query (get_full_table_id bq)] \<and>
   issued bq (snd (update_task fault_get now fault task_id req bq)) =
     (if isl (fst (get_task fault_get task_id bq)) then [get_task_query (get_full_table_id bq)]
      else [get_task_query (get_full_table_id bq),
            update_task_query (get_full_table_id bq) (supplied_fields req @ [''updated_at''])]) \<and>
   issued bq (snd (delete_task fault_get fault task_id bq)) =
     (if isl (fst (get_task fault_get task_id bq)) then [get_task_query (get_full_table_id bq)]
      else [get_task_query (get_full_table_id bq), delete_task_query (get_full_table_id bq)]) \<and>
   (supplied_fields req = supplied_fields req' \<longrightarrow>
      update_task_query (get_full_table_id bq) (map fst (build_update_fields req now)) =
      update_task_query (get_full_table_id bq) (map fst (build_update_fields req' now')))"
  by (simp add: issued_jobs [OF create_task_jobs] create_task_jobs issued_get_task
        issued_update_task issued_delete_task keys_build_update_fields)

theorem query_text_independent_of_values_witness:
  "supplied_fields \<lparr>upd_title = Some ''c'', upd_description = None, upd_status = None\<rparr> =
     supplied_fields \<lparr>upd_title = Some ''; DROP'', upd_description = None, upd_status = None\<rparr> \<and>
   issued example_client (snd (update_task None 20 None ''u1''
       \<lparr>upd_title = Some ''c'', upd_description = None, upd_status = None\<rparr> example_client)) =
     [get_task_query ''p.d.t'', update_task_query ''p.d.t'' [''title'', ''updated_at'']] \<and>
   issued example_client (snd (update_task None 30 None ''u2''
       \<lparr>upd_title = Some ''; DROP'', upd_description = None, upd_status = None\<rparr> example_client)) =
     [get_task_query ''p.d.t'', update_task_query ''p.d.t'' [''title'', ''updated_at'']] \<and>
   update_task_query ''p.d.t''
     (map fst (build_update_fields
        \<lparr>upd_title = Some ''c'', upd_description = None, upd_status = None\<rparr> 20)) =
   update_task_query ''p.d.t''
     (map fst (build_update_fields
        \<lparr>upd_title = Some ''; DROP'', upd_description = None, upd_status = None\<rparr> 30))"
proof -
  let ?r1 = "\<lparr>upd_title = Some ''c'', upd_description = None, upd_status = None\<rparr>"
  let ?r2 = "\<lparr>upd_title = Some ''; DROP'', upd_description = None, upd_status = None\<rparr>"
  have s: "supplied_fields ?r1 = supplied_fields ?r2"
    by (simp add: supplied_fields_def)
  have tbl: "get_full_table_id example_client = ''p.d.t''"
    by (simp add: get_full_table_id_def example_client_def)
  have g1: "\<not> isl (fst (get_task None ''u1'' example_client))"
    by (simp add: get_task_None example_client_def get_task_results_Cons row_to_task_eq
          TaskStatus_of_def)
  have g2: "\<not> isl (fst (get_task None ''u2'' example_client))"
    by (simp add: get_task_None example_client_def get_task_results_Cons row_to_task_eq
          TaskStatus_of_def)
  from query_text_independent_of_values
         [where bq = example_client and fault = None and fault_get = None
           and task_id = "''u1''" and now = 20 and req = ?r1 and req' = ?r2 and now' = 30
           and new_id = "''u3''" and task = "\<lparr>title = ''c'', description = None, status = PENDING\<rparr>"] g1 tbl
  have a: "issued example_client (snd (update_task None 20 None ''u1'' ?r1 example_client)) =
     [get_task_query ''p.d.t'', update_task_query ''p.d.t'' [''title'', ''updated_at'']]"
    and c: "update_task_query ''p.d.t'' (map fst (build_update_fields ?r1 20)) =
            update_task_query ''p.d.t'' (map fst (build_update_fields ?r2 30))"
    by (simp_all add: supplied_fields_def)
  from query_text_independent_of_values
         [where bq = example_client and fault = None and fault_get = None
           and task_id = "''u2''" and now = 30 and req = ?r2 and req' = ?r2 and now' = 30
           and new_id = "''u3''" and task = "\<lparr>title = ''c'', description = None, status = PENDING\<rparr>"] g2 tbl
  have b: "issued example_client (snd (update_task None 30 None ''u2'' ?r2 example_client)) =
     [get_task_query ''p.d.t'', update_task_query ''p.d.t'' [''title'', ''updated_at'']]"
    by (simp add: supplied_fields_def)
  from s a b c show ?thesis by blast
qed

text \<open>
  C9. A \<^verbatim>\<open>null\<close> member of the body of an update validates to the same request as
  the body without that member. The dictionary \<^verbatim>\<open>update_fields\<close> holds the supplied
  fields and \<open>updated_at\<close> only, and no parameter of the \<^verbatim>\<open>UPDATE\<close> job is bound to
  \<^verbatim>\<open>None\<close>. When the existence check finds the task and the \<^verbatim>\<open>UPDATE\<close> job does not
  fail, the table afterwards is the table before with \<open>updated_row\<close> applied to the rows
  with the requested id: a column whose field is absent keeps its stored value, \<open>id\<close>
  and \<open>created_at\<close> are kept, and the other rows are unchanged.
\<close>

theorem update_task_null_is_omitted:
  assumes "fst (get_task fault_get task_id bq) = Inr prior"
  shows "TaskUpdate_validate (body(k \<mapsto> JNull)) = TaskUpdate_validate (body(k := None)) \<and>
         map fst (build_update_fields req now) = supplied_fields req @ [''updated_at''] \<and>
         (\<forall>p\<in>set (update_task_parameters task_id (build_update_fields req now)).
             parameter_value p \<noteq> PyNone) \<and>
         snd (last (jobs (snd (update_task fault_get now fault task_id req bq)))) =
           update_task_parameters task_id (build_update_fields req now) \<and>
         table_rows (snd (update_task fault_get now None task_id req bq)) =
           map (\<lambda>r. if row_id r = task_id then updated_row req now r else r) (table_rows bq)"
  using update_task_client(1) [OF assms, of now fault req] update_task_client(2) [OF assms, of now req]
    TaskUpdate_validate_null [of body k]
    keys_build_update_fields [of req now] update_task_parameters_not_None [of task_id req now]
  by simp

theorem update_task_null_is_omitted_witness:
  "fst (get_task None ''u1'' example_client) =
     Inr \<lparr>title = ''a'', description = Some ''x'', status = PENDING, id' = ''u1'',
          created_at = Datetime 5 (Some UTC),
          updated_at = Datetime 5 (Some UTC)\<rparr> \<and>
   TaskUpdate_validate [''status'' \<mapsto> JStr ''completed'', ''title'' \<mapsto> JNull] =
     Some \<lparr>upd_title = None, upd_description = None, upd_status = Some COMPLETED\<rparr> \<and>
   TaskUpdate_validate ([''status'' \<mapsto> JStr ''completed''](''title'' := None)) =
     Some \<lparr>upd_title = None, upd_description = None, upd_status = Some COMPLETED\<rparr> \<and>
   table_rows (snd (update_task None 20 None ''u1''
       \<lparr>upd_title = None, upd_description = None, upd_status = Some COMPLETED\<rparr>
       example_client)) =
     [\<lparr>row_id = ''u1'', row_title = ''a'', row_description = Some ''x'',
       row_status = ''completed'', row_created_at = 5, row_updated_at = 20\<rparr>,
      \<lparr>row_id = ''u2'', row_title = ''b'', row_description = None,
       row_status = ''in_progress'', row_created_at = 7, row_updated_at = 8\<rparr>]"
proof -
  have g: "fst (get_task None ''u1'' example_client) =
     Inr \<lparr>title = ''a'', description = Some ''x'', status = PENDING, id' = ''u1'',
          created_at = Datetime 5 (Some UTC),
          updated_at = Datetime 5 (Some UTC)\<rparr>"
    by (simp add: get_task_None example_client_def get_task_results_Cons row_to_task_eq
          TaskStatus_of_def)
  have v: "TaskUpdate_validate ([''status'' \<mapsto> JStr ''completed''](''title'' := None)) =
     Some \<lparr>upd_title = None, upd_description = None, upd_status = Some COMPLETED\<rparr>"
    by (simp add: TaskUpdate_validate_def TaskStatus_of_def)
  show ?thesis
    using update_task_null_is_omitted [OF g, of "[''status'' \<mapsto> JStr ''completed'']" "''title''"
        "\<lparr>upd_title = None, upd_description = None, upd_status = Some COMPLETED\<rparr>" 20 None] g v
    by (simp add: example_client_def updated_row_def)
qed

text \<open>
  C10. In \<open>get_task\<close> the access \<^verbatim>\<open>results[0]\<close> never raises: for the empty result the
  handler has answered 404 before, and for a result \<open>row # rest\<close> the access yields
  \<open>row\<close>. When that first row conforms to the schema the handler returns the task built
  from it, however many further rows follow; so when several rows of the table have the
  requested id, and the \<^verbatim>\<open>SELECT\<close> job does not fail, \<open>get_task\<close> returns the task
  built from the first of them.
\<close>

theorem get_task_first_row:
  "get_task_body results \<noteq> Inl (Exn IndexError) \<and>
   (results = [] \<longrightarrow> get_task_results results = Inl (HTTPException 404 ''Task not found'')) \<and>
   (\<forall>row rest. results = row # rest \<longrightarrow>
      getitem0 results = Inr row \<and>
      (conforms row \<longrightarrow> (\<exists>t. row_to_task row = Inr t \<and> get_task_results results = Inr t))) \<and>
   (\<forall>row rest. filter (\<lambda>r. row_id r = task_id) (table_rows bq) = row # rest \<longrightarrow> conforms row \<longrightarrow>
      (\<exists>t. row_to_task row = Inr t \<and> fst (get_task None task_id bq) = Inr t))"
proof -
  have 1: "get_task_body results \<noteq> Inl (Exn IndexError)"
    by (cases results)
       (auto simp: get_task_body_def getitem0_def split: sum.splits dest: row_to_task_InlD)
  have 2: "results = [] \<longrightarrow> get_task_results results = Inl (HTTPException 404 ''Task not found'')"
    by (simp add: get_task_results_Nil)
  have 3: "getitem0 (row # rest) = Inr row \<and>
      (conforms row \<longrightarrow> (\<exists>t. row_to_task row = Inr t \<and> get_task_results (row # rest) = Inr t))"
    for row :: Row and rest
    using row_to_task_conforms [of row] by (auto simp: getitem0_def get_task_results_Cons)
  have 4: "\<exists>t. row_to_task row = Inr t \<and> fst (get_task None task_id bq) = Inr t"
    if "filter (\<lambda>r. row_id r = task_id) (table_rows bq) = row # rest" and "conforms row"
    for row rest
    using that 3 [of row rest] by (auto simp: get_task_None)
  from 1 2 3 4 show ?thesis by blast
qed

theorem get_task_first_row_witness:
  "filter (\<lambda>r. row_id r = ''u1'') (table_rows example_duplicates) =
     [\<lparr>row_id = ''u1'', row_title = ''first'', row_description = None,
       row_status = ''pending'', row_created_at = 5, row_updated_at = 5\<rparr>,
      \<lparr>row_id = ''u1'', row_title = ''second'', row_description = Some ''x'',
       row_status = ''completed'', row_created_at = 7, row_updated_at = 8\<rparr>] \<and>
   fst (get_task None ''u1'' example_duplicates) =
     Inr \<lparr>title = ''first'', description = None, status = PENDING, id' = ''u1'',
          created_at = Datetime 5 (Some UTC),
          updated_at = Datetime 5 (Some UTC)\<rparr> \<and>
   get_task_results ([] :: Row list) = Inl (HTTPException 404 ''Task not found'')"
proof -
  let ?r1 = "\<lparr>row_id = ''u1'', row_title = ''first'', row_description = None,
       row_status = ''pending'', row_created_at = 5, row_updated_at = 5\<rparr>"
  let ?r2 = "\<lparr>row_id = ''u1'', row_title = ''second'', row_description = Some ''x'',
       row_status = ''completed'', row_created_at = 7, row_updated_at = 8\<rparr>"
  have f: "filter (\<lambda>r. row_id r = ''u1'') (table_rows example_duplicates) = [?r1, ?r2]"
    by (simp add: example_duplicates_def)
  have c: "conforms ?r1"
    by (simp add: conforms_def TaskStatus_of_def)
  have t: "row_to_task ?r1 =
     Inr \<lparr>title = ''first'', description = None, status = PENDING, id' = ''u1'',
          created_at = Datetime 5 (Some UTC),
          updated_at = Datetime 5 (Some UTC)\<rparr>"
    by (simp add: row_to_task_eq TaskStatus_of_def)
  from get_task_first_row [where results = "[]" and task_id = "''u1''"
         and bq = example_duplicates] f c
  have "\<exists>t. row_to_task ?r1 = Inr t \<and> fst (get_task None ''u1'' example_duplicates) = Inr t"
    and n: "get_task_results ([] :: Row list) = Inl (HTTPException 404 ''Task not found'')"
    by blast+
  with t have "fst (get_task None ''u1'' example_duplicates) =
     Inr \<lparr>title = ''first'', description = None, status = PENDING, id' = ''u1'',
          created_at = Datetime 5 (Some UTC),
          updated_at = Datetime 5 (Some UTC)\<rparr>"
    by auto
  with f n show ?thesis by blast
qed

end
